theory Spec2Isabelle
  imports Main "HOL-Library.Word"
begin

section \<open>The compatibility headers of the shell and of the server\<close>

text \<open>
  The repository is two C headers, \<^verbatim>\<open>src/bash/wasm_compat.h\<close> and
  \<^verbatim>\<open>src/nginx/wasm_compat.h\<close>. Each is a sequence of preprocessor directives and a few
  C declarations. A header is embedded as the list of its directives, in the order of the
  source; processing a header is a function from the state of the translation unit (the macro
  table and the file-scope declarations) to an error or a new state.
\<close>

subsection \<open>C expressions, types and declarations that occur in the headers\<close>

datatype ctype =
    TVoid
  | TChar
  | TULong
  | TConst ctype
  | TPtr ctype
  | TNamed string

text \<open>
  Expressions: what the replacement lists and declarations of the headers are made of
  (literals, identifiers, parentheses, casts, \<^verbatim>\<open>*\<close>, \<^verbatim>\<open>/\<close>, \<^verbatim>\<open>sizeof(type)\<close>, member access, a
  call), and two forms that only arguments of a macro invocation use: a dereference, which
  can fault, and a post-increment, which has a side effect.
\<close>

datatype cexpr =
    Lit int
  | Var string
  | Paren cexpr
  | Cast ctype cexpr
  | Mul cexpr cexpr
  | Div cexpr cexpr
  | SizeofT ctype
  | Member cexpr string
  | Deref cexpr
  | PostInc string
  | Call string "cexpr list"

datatype stmt =
    Expr cexpr
  | Return cexpr

text \<open>
  A struct member is its name, its element type and, for an array member, the expression
  that gives the number of elements. A function definition records its specifiers
  (\<^verbatim>\<open>static inline\<close> as a flag), return type, name, parameters and body.
\<close>

type_synonym field = "string \<times> ctype \<times> cexpr option"

datatype decl =
    Typedef_struct string "field list"
  | Func_def bool ctype string "(ctype \<times> string) list" "stmt list"

fun decl_name :: "decl \<Rightarrow> string" where
  "decl_name (Typedef_struct n fs) = n"
| "decl_name (Func_def st rt n ps body) = n"

subsection \<open>Macros and the state of the translation unit\<close>

text \<open>
  A replacement list is empty (\<^verbatim>\<open>#define WASM_COMPAT_H\<close>), an expression
  (\<^verbatim>\<open>1024\<close>, \<^verbatim>\<open>((void)0)\<close>), or a member designator (\<^verbatim>\<open>st_atim.tv_sec\<close>, which is
  written after \<^verbatim>\<open>.\<close> or \<^verbatim>\<open>->\<close>). A macro is object-like (no parameter list) or
  function-like.
\<close>

datatype macro_body =
    No_tokens
  | Expr_body cexpr
  | Member_body "string list"

datatype macro = Macro (macro_params: "string list option") (replacement: macro_body)

record pp_state =
  macros :: "string \<rightharpoonup> macro"
  decls :: "string \<rightharpoonup> decl"

datatype error =
    Macro_redefined string
  | Redeclared string
  | Include_failed string

subsection \<open>Directives\<close>

datatype cond =
    Defined string
  | Not cond
  | And cond cond

datatype item =
    Ifdef string "item list"
  | Ifndef string "item list"
  | If cond "item list"
  | Define string macro
  | Undef string
  | Include string
  | Declare decl
  | Linkage_open
  | Linkage_close

fun eval_cond :: "pp_state \<Rightarrow> cond \<Rightarrow> bool" where
  "eval_cond \<sigma> (Defined n) = (macros \<sigma> n \<noteq> None)"
| "eval_cond \<sigma> (Not c) = (\<not> eval_cond \<sigma> c)"
| "eval_cond \<sigma> (And c d) = (eval_cond \<sigma> c \<and> eval_cond \<sigma> d)"

subsection \<open>Macro replacement\<close>

text \<open>
  Substitution of the arguments of a function-like macro for its parameters in the
  replacement list.
\<close>

fun subst :: "(string \<times> cexpr) list \<Rightarrow> cexpr \<Rightarrow> cexpr" where
  "subst env (Lit i) = Lit i"
| "subst env (Var x) = (case map_of env x of Some a \<Rightarrow> a | None \<Rightarrow> Var x)"
| "subst env (Paren e) = Paren (subst env e)"
| "subst env (Cast t e) = Cast t (subst env e)"
| "subst env (Mul a b) = Mul (subst env a) (subst env b)"
| "subst env (Div a b) = Div (subst env a) (subst env b)"
| "subst env (SizeofT t) = SizeofT t"
| "subst env (Member e f) = Member (subst env e) f"
| "subst env (Deref e) = Deref (subst env e)"
| "subst env (PostInc x) = PostInc x"
| "subst env (Call f args) = Call f (map (subst env) args)"

text \<open>
  Replacement of the macros of a table in an expression. An identifier that names an
  object-like macro is replaced by its replacement list; a member name that is an
  object-like macro with a member designator is replaced by that path; a call whose name is
  a function-like macro with as many parameters as there are arguments is replaced by the
  replacement list with the (replaced) arguments substituted. A replacement list is not
  scanned again: no replacement list of these headers names a macro that the headers
  define.
\<close>

fun expand :: "(string \<rightharpoonup> macro) \<Rightarrow> cexpr \<Rightarrow> cexpr" where
  "expand M (Lit i) = Lit i"
| "expand M (Var x) =
     (case M x of
        Some (Macro None (Expr_body b)) \<Rightarrow> b
      | Some (Macro None (Member_body (h # t))) \<Rightarrow> foldl Member (Var h) t
      | _ \<Rightarrow> Var x)"
| "expand M (Paren e) = Paren (expand M e)"
| "expand M (Cast t e) = Cast t (expand M e)"
| "expand M (Mul a b) = Mul (expand M a) (expand M b)"
| "expand M (Div a b) = Div (expand M a) (expand M b)"
| "expand M (SizeofT t) = SizeofT t"
| "expand M (Member e f) =
     (case M f of
        Some (Macro None (Member_body (h # t))) \<Rightarrow> foldl Member (Member (expand M e) h) t
      | _ \<Rightarrow> Member (expand M e) f)"
| "expand M (Deref e) = Deref (expand M e)"
| "expand M (PostInc x) = PostInc x"
| "expand M (Call f args) =
     (case M f of
        Some (Macro (Some ps) (Expr_body b)) \<Rightarrow>
          if length ps = length args then subst (zip ps (map (expand M) args)) b
          else Call f (map (expand M) args)
      | _ \<Rightarrow> Call f (map (expand M) args))"

text \<open>
  A declaration is subject to replacement where it uses an expression: the array length of
  a struct member. The identifiers a declaration binds itself (its name, its members, the
  parameters of a function and their uses in its body) are kept.
\<close>

fun expand_field :: "(string \<rightharpoonup> macro) \<Rightarrow> field \<Rightarrow> field" where
  "expand_field M (f, t, len) = (f, t, map_option (expand M) len)"

fun expand_decl :: "(string \<rightharpoonup> macro) \<Rightarrow> decl \<Rightarrow> decl" where
  "expand_decl M (Typedef_struct n fs) = Typedef_struct n (map (expand_field M) fs)"
| "expand_decl M (Func_def st rt n ps b) = Func_def st rt n ps b"

subsection \<open>Processing directives\<close>

text \<open>
  \<^verbatim>\<open>#define\<close> of a name that is already a macro is accepted when the definition is the
  same and is an error otherwise; \<^verbatim>\<open>#undef\<close> of a name that is not a macro does nothing;
  a declaration of a name that file scope already declares is an error (both declarations
  of the headers are definitions: a struct typedef and a static function). What a system
  header (\<^verbatim>\<open>#include <...>\<close>) does is not part of the repository: it is the parameter
  \<open>inc\<close>. The linkage block \<^verbatim>\<open>extern "C" {\<close> ... \<^verbatim>\<open>}\<close> changes neither table.
\<close>

fun exec_item :: "(string \<Rightarrow> pp_state \<Rightarrow> error + pp_state) \<Rightarrow> item \<Rightarrow> pp_state \<Rightarrow> error + pp_state"
  and exec_items :: "(string \<Rightarrow> pp_state \<Rightarrow> error + pp_state) \<Rightarrow> item list \<Rightarrow> pp_state \<Rightarrow> error + pp_state"
where
  "exec_item inc (Ifdef n body) \<sigma> =
     (if macros \<sigma> n \<noteq> None then exec_items inc body \<sigma> else Inr \<sigma>)"
| "exec_item inc (Ifndef n body) \<sigma> =
     (if macros \<sigma> n = None then exec_items inc body \<sigma> else Inr \<sigma>)"
| "exec_item inc (If c body) \<sigma> =
     (if eval_cond \<sigma> c then exec_items inc body \<sigma> else Inr \<sigma>)"
| "exec_item inc (Define n m) \<sigma> =
     (case macros \<sigma> n of
        None \<Rightarrow> Inr (\<sigma>\<lparr>macros := (macros \<sigma>)(n \<mapsto> m)\<rparr>)
      | Some m' \<Rightarrow> if m' = m then Inr \<sigma> else Inl (Macro_redefined n))"
| "exec_item inc (Undef n) \<sigma> = Inr (\<sigma>\<lparr>macros := (macros \<sigma>)(n := None)\<rparr>)"
| "exec_item inc (Include h) \<sigma> = inc h \<sigma>"
| "exec_item inc (Declare d) \<sigma> =
     (case decls \<sigma> (decl_name d) of
        None \<Rightarrow> Inr (\<sigma>\<lparr>decls := (decls \<sigma>)(decl_name d \<mapsto> expand_decl (macros \<sigma>) d)\<rparr>)
      | Some d' \<Rightarrow> Inl (Redeclared (decl_name d)))"
| "exec_item inc Linkage_open \<sigma> = Inr \<sigma>"
| "exec_item inc Linkage_close \<sigma> = Inr \<sigma>"
| "exec_items inc [] \<sigma> = Inr \<sigma>"
| "exec_items inc (i # rest) \<sigma> =
     (case exec_item inc i \<sigma> of Inl e \<Rightarrow> Inl e | Inr \<sigma>' \<Rightarrow> exec_items inc rest \<sigma>')"

text \<open>
  System headers are outside the repository. A property of a macro or of a declaration
  that survives an \<^verbatim>\<open>#include <...>\<close> is stated for system headers that leave that name as
  it is.
\<close>

definition inc_keeps_macro :: "(string \<Rightarrow> pp_state \<Rightarrow> error + pp_state) \<Rightarrow> string \<Rightarrow> bool" where
  "inc_keeps_macro inc n \<longleftrightarrow> (\<forall>h \<sigma> \<sigma>'. inc h \<sigma> = Inr \<sigma>' \<longrightarrow> macros \<sigma>' n = macros \<sigma> n)"

definition inc_keeps_decl :: "(string \<Rightarrow> pp_state \<Rightarrow> error + pp_state) \<Rightarrow> string \<Rightarrow> bool" where
  "inc_keeps_decl inc n \<longleftrightarrow> (\<forall>h \<sigma> \<sigma>'. inc h \<sigma> = Inr \<sigma>' \<longrightarrow> decls \<sigma>' n = decls \<sigma> n)"

text \<open>The macro and the declaration a name has after a header is processed.\<close>

definition macro_after ::
  "(string \<Rightarrow> pp_state \<Rightarrow> error + pp_state) \<Rightarrow> item list \<Rightarrow> pp_state \<Rightarrow> string \<Rightarrow> macro option" where
  "macro_after inc hdr \<sigma> n = (case exec_items inc hdr \<sigma> of Inl e \<Rightarrow> None | Inr \<sigma>' \<Rightarrow> macros \<sigma>' n)"

definition decl_after ::
  "(string \<Rightarrow> pp_state \<Rightarrow> error + pp_state) \<Rightarrow> item list \<Rightarrow> pp_state \<Rightarrow> string \<Rightarrow> decl option" where
  "decl_after inc hdr \<sigma> n = (case exec_items inc hdr \<sigma> of Inl e \<Rightarrow> None | Inr \<sigma>' \<Rightarrow> decls \<sigma>' n)"

definition accepted :: "(string \<Rightarrow> pp_state \<Rightarrow> error + pp_state) \<Rightarrow> item list \<Rightarrow> pp_state \<Rightarrow> bool" where
  "accepted inc hdr \<sigma> = (case exec_items inc hdr \<sigma> of Inl e \<Rightarrow> False | Inr \<sigma>' \<Rightarrow> True)"

subsection \<open>The shell header, \<^verbatim>\<open>src/bash/wasm_compat.h\<close>\<close>

text \<open>
  \<^verbatim>\<open>#define st_atime st_atim.tv_sec\<close> and its two siblings (lines 9, 13, 17; the server
  header has the same three at lines 55, 59, 63).
\<close>

definition stat_alias :: "string \<Rightarrow> macro" where
  "stat_alias ts = Macro None (Member_body [ts, ''tv_sec''])"

definition guard_macro :: macro where
  "guard_macro = Macro None No_tokens"

definition bash_stat_section :: "item list" where
  "bash_stat_section =
     [Include ''sys/stat.h'',
      Ifndef ''st_atime'' [Define ''st_atime'' (stat_alias ''st_atim'')],
      Ifndef ''st_mtime'' [Define ''st_mtime'' (stat_alias ''st_mtim'')],
      Ifndef ''st_ctime'' [Define ''st_ctime'' (stat_alias ''st_ctim'')]]"

definition bash_header :: "item list" where
  "bash_header =
     [Ifndef ''WASM_COMPAT_H''
        [Define ''WASM_COMPAT_H'' guard_macro,
         Ifdef ''__wasi__'' bash_stat_section]]"

subsection \<open>The server header, \<^verbatim>\<open>src/nginx/wasm_compat.h\<close>\<close>

text \<open>Lines 39 to 45.\<close>

definition sendfile_section :: "item list" where
  "sendfile_section =
     [Ifdef ''NGX_HAVE_SENDFILE'' [Undef ''NGX_HAVE_SENDFILE''],
      Ifdef ''NGX_HAVE_SENDFILE64'' [Undef ''NGX_HAVE_SENDFILE64'']]"

text \<open>Lines 54 to 64.\<close>

definition stat_section :: "item list" where
  "stat_section =
     [Ifndef ''st_atime'' [Define ''st_atime'' (stat_alias ''st_atim'')],
      Ifndef ''st_mtime'' [Define ''st_mtime'' (stat_alias ''st_mtim'')],
      Ifndef ''st_ctime'' [Define ''st_ctime'' (stat_alias ''st_ctim'')]]"

text \<open>Lines 73 and 74.\<close>

definition include_section :: "item list" where
  "include_section = [Include ''sched.h'', Include ''string.h'']"

text \<open>
  Lines 76 to 93: \<^verbatim>\<open>#define CPU_SETSIZE 1024\<close>, the typedef
  \<^verbatim>\<open>typedef struct { unsigned long __bits[CPU_SETSIZE / (8 * sizeof(unsigned long))]; } cpu_set_t;\<close>
  and the three macros
  \<^verbatim>\<open>#define CPU_ZERO(set) memset((set), 0, sizeof(cpu_set_t))\<close>,
  \<^verbatim>\<open>#define CPU_SET(cpu, set) ((void)0)\<close>,
  \<^verbatim>\<open>#define CPU_ISSET(cpu, set) (0)\<close>.
\<close>

definition cpu_setsize_macro :: macro where
  "cpu_setsize_macro = Macro None (Expr_body (Lit 1024))"

definition cpu_set_t_typedef :: decl where
  "cpu_set_t_typedef =
     Typedef_struct ''cpu_set_t''
       [(''__bits'', TULong,
         Some (Div (Var ''CPU_SETSIZE'') (Paren (Mul (Lit 8) (SizeofT TULong)))))]"

text \<open>The type as it is declared, with \<^verbatim>\<open>CPU_SETSIZE\<close> replaced by the 1024 of the line before.\<close>

definition cpu_set_t_1024 :: decl where
  "cpu_set_t_1024 = expand_decl [''CPU_SETSIZE'' \<mapsto> cpu_setsize_macro] cpu_set_t_typedef"

definition cpu_zero_macro :: macro where
  "cpu_zero_macro =
     Macro (Some [''set''])
       (Expr_body (Call ''memset'' [Paren (Var ''set''), Lit 0, SizeofT (TNamed ''cpu_set_t'')]))"

definition cpu_set_macro :: macro where
  "cpu_set_macro = Macro (Some [''cpu'', ''set'']) (Expr_body (Paren (Cast TVoid (Lit 0))))"

definition cpu_isset_macro :: macro where
  "cpu_isset_macro = Macro (Some [''cpu'', ''set'']) (Expr_body (Paren (Lit 0)))"

definition affinity_section :: "item list" where
  "affinity_section =
     [Ifndef ''CPU_SETSIZE''
        [Define ''CPU_SETSIZE'' cpu_setsize_macro,
         Declare cpu_set_t_typedef],
      Ifndef ''CPU_ZERO'' [Define ''CPU_ZERO'' cpu_zero_macro],
      Ifndef ''CPU_SET'' [Define ''CPU_SET'' cpu_set_macro],
      Ifndef ''CPU_ISSET'' [Define ''CPU_ISSET'' cpu_isset_macro]]"

text \<open>
  Lines 103 to 111:
  \<^verbatim>\<open>static inline char *crypt(const char *key, const char *salt)
  { (void)key; (void)salt; return (char *)0; }\<close> and \<^verbatim>\<open>#define HAVE_CRYPT 1\<close>.
\<close>

definition crypt_stub :: decl where
  "crypt_stub =
     Func_def True (TPtr TChar) ''crypt''
       [(TPtr (TConst TChar), ''key''), (TPtr (TConst TChar), ''salt'')]
       [Expr (Cast TVoid (Var ''key'')),
        Expr (Cast TVoid (Var ''salt'')),
        Return (Cast (TPtr TChar) (Lit 0))]"

definition have_crypt_macro :: macro where
  "have_crypt_macro = Macro None (Expr_body (Lit 1))"

definition crypt_section :: "item list" where
  "crypt_section =
     [If (And (Not (Defined ''HAVE_CRYPT'')) (Not (Defined ''_CRYPT_H'')))
        [Declare crypt_stub,
         Define ''HAVE_CRYPT'' have_crypt_macro]]"

text \<open>Lines 26 to 74: what the header processes before it tests the affinity sentinel.\<close>

definition nginx_before_affinity :: "item list" where
  "nginx_before_affinity =
     Define ''_WASM_COMPAT_H'' guard_macro
     # [Ifdef ''__cplusplus'' [Linkage_open]]
     @ sendfile_section
     @ stat_section
     @ include_section"

definition nginx_body :: "item list" where
  "nginx_body =
     [Ifdef ''__cplusplus'' [Linkage_open]]
     @ sendfile_section
     @ stat_section
     @ include_section
     @ affinity_section
     @ crypt_section
     @ [Ifdef ''__cplusplus'' [Linkage_close]]"

definition nginx_header :: "item list" where
  "nginx_header =
     [Ifndef ''_WASM_COMPAT_H'' (Define ''_WASM_COMPAT_H'' guard_macro # nginx_body)]"

subsection \<open>Sizes of types\<close>

text \<open>
  The sizes of \<^verbatim>\<open>unsigned long\<close> and of a pointer belong to the target, not to the
  headers: they are parameters. A byte has 8 bits, as the typedef's own \<^verbatim>\<open>8 *\<close> takes it.
\<close>

record platform =
  sizeof_ulong :: nat
  sizeof_ptr :: nat

fun sizeof_basic :: "platform \<Rightarrow> ctype \<Rightarrow> nat option" where
  "sizeof_basic P TVoid = None"
| "sizeof_basic P TChar = Some 1"
| "sizeof_basic P TULong = Some (sizeof_ulong P)"
| "sizeof_basic P (TConst t) = sizeof_basic P t"
| "sizeof_basic P (TPtr t) = Some (sizeof_ptr P)"
| "sizeof_basic P (TNamed n) = None"

text \<open>
  Integer constant expressions, as an array length is: literals, parentheses, \<^verbatim>\<open>*\<close>,
  \<^verbatim>\<open>/\<close> and \<^verbatim>\<open>sizeof\<close> of a basic type, on natural numbers; a division by zero has no
  value.
\<close>

fun const_eval :: "platform \<Rightarrow> cexpr \<Rightarrow> nat option" where
  "const_eval P (Lit i) = (if 0 \<le> i then Some (nat i) else None)"
| "const_eval P (Paren e) = const_eval P e"
| "const_eval P (Mul a b) =
     (case (const_eval P a, const_eval P b) of
        (Some x, Some y) \<Rightarrow> Some (x * y)
      | _ \<Rightarrow> None)"
| "const_eval P (Div a b) =
     (case (const_eval P a, const_eval P b) of
        (Some x, Some y) \<Rightarrow> if y = 0 then None else Some (x div y)
      | _ \<Rightarrow> None)"
| "const_eval P (SizeofT t) = sizeof_basic P t"
| "const_eval P e = None"

fun field_size :: "platform \<Rightarrow> field \<Rightarrow> nat option" where
  "field_size P (f, t, None) = sizeof_basic P t"
| "field_size P (f, t, Some len) =
     (case (const_eval P len, sizeof_basic P t) of
        (Some n, Some sz) \<Rightarrow> Some (n * sz)
      | _ \<Rightarrow> None)"

text \<open>The size of a struct whose members have one type (no padding between them).\<close>

fun struct_size :: "platform \<Rightarrow> field list \<Rightarrow> nat option" where
  "struct_size P [] = Some 0"
| "struct_size P (f # fs) =
     (case (field_size P f, struct_size P fs) of
        (Some a, Some b) \<Rightarrow> Some (a + b)
      | _ \<Rightarrow> None)"

fun sizeof_type :: "platform \<Rightarrow> (string \<rightharpoonup> decl) \<Rightarrow> ctype \<Rightarrow> nat option" where
  "sizeof_type P D (TNamed n) =
     (case D n of
        Some (Typedef_struct n' fs) \<Rightarrow> struct_size P fs
      | _ \<Rightarrow> None)"
| "sizeof_type P D t = sizeof_basic P t"

text \<open>The number of bits a declared struct type holds.\<close>

fun struct_bits :: "platform \<Rightarrow> decl \<Rightarrow> nat option" where
  "struct_bits P (Typedef_struct n fs) = map_option (\<lambda>k. 8 * k) (struct_size P fs)"
| "struct_bits P (Func_def st rt n ps b) = None"

subsection \<open>Evaluation of expressions and of a function body\<close>

text \<open>
  Values are void, an integer, a pointer (an address; 0 is the null pointer) or a struct.
  The run-time state is the variables in scope and a byte-addressed memory; an address
  outside the domain of the memory is not allocated. Evaluation returns the value and the
  new state, or nothing when the expression faults (a read or a write of unallocated
  memory, a division by zero, an unbound name, a value of the wrong kind, a call of a
  function other than \<^verbatim>\<open>memset\<close>, the only one the headers call). Arithmetic is on
  mathematical integers: the headers multiply and divide 1024, 8 and a type size only.
\<close>

datatype cval =
    VVoid
  | VInt int
  | VPtr nat
  | VStruct "(string \<times> cval) list"

record rt_state =
  vars :: "string \<rightharpoonup> cval"
  heap :: "nat \<rightharpoonup> 8 word"

fun cast_val :: "platform \<Rightarrow> ctype \<Rightarrow> cval \<Rightarrow> cval option" where
  "cast_val P TVoid v = Some VVoid"
| "cast_val P (TPtr t) (VInt i) = (if 0 \<le> i then Some (VPtr (nat i)) else None)"
| "cast_val P (TPtr t) (VPtr a) = Some (VPtr a)"
| "cast_val P TULong (VInt i) = Some (VInt (i mod 2 ^ (8 * sizeof_ulong P)))"
| "cast_val P t v = None"

fun memset_bytes :: "(nat \<rightharpoonup> 8 word) \<Rightarrow> nat \<Rightarrow> 8 word \<Rightarrow> nat \<Rightarrow> (nat \<rightharpoonup> 8 word) option" where
  "memset_bytes h a c 0 = Some h"
| "memset_bytes h a c (Suc k) =
     (if h a = None then None else memset_bytes (h(a \<mapsto> c)) (Suc a) c k)"

definition c_div :: "int \<Rightarrow> int \<Rightarrow> int" where
  "c_div a b = sgn a * sgn b * (\<bar>a\<bar> div \<bar>b\<bar>)"

fun eval :: "platform \<Rightarrow> (string \<rightharpoonup> decl) \<Rightarrow> rt_state \<Rightarrow> cexpr \<Rightarrow> (cval \<times> rt_state) option" where
  "eval P D s (Lit i) = Some (VInt i, s)"
| "eval P D s (Var x) = (case vars s x of None \<Rightarrow> None | Some v \<Rightarrow> Some (v, s))"
| "eval P D s (Paren e) = eval P D s e"
| "eval P D s (Cast t e) =
     (case eval P D s e of
        None \<Rightarrow> None
      | Some (v, s') \<Rightarrow> (case cast_val P t v of None \<Rightarrow> None | Some v' \<Rightarrow> Some (v', s')))"
| "eval P D s (Mul a b) =
     (case eval P D s a of
        Some (VInt x, s1) \<Rightarrow>
          (case eval P D s1 b of
             Some (VInt y, s2) \<Rightarrow> Some (VInt (x * y), s2)
           | _ \<Rightarrow> None)
      | _ \<Rightarrow> None)"
| "eval P D s (Div a b) =
     (case eval P D s a of
        Some (VInt x, s1) \<Rightarrow>
          (case eval P D s1 b of
             Some (VInt y, s2) \<Rightarrow> if y = 0 then None else Some (VInt (c_div x y), s2)
           | _ \<Rightarrow> None)
      | _ \<Rightarrow> None)"
| "eval P D s (SizeofT t) =
     (case sizeof_type P D t of None \<Rightarrow> None | Some k \<Rightarrow> Some (VInt (int k), s))"
| "eval P D s (Member e f) =
     (case eval P D s e of
        Some (VStruct fs, s') \<Rightarrow> (case map_of fs f of None \<Rightarrow> None | Some v \<Rightarrow> Some (v, s'))
      | _ \<Rightarrow> None)"
| "eval P D s (Deref e) =
     (case eval P D s e of
        Some (VPtr a, s') \<Rightarrow> (case heap s' a of None \<Rightarrow> None | Some b \<Rightarrow> Some (VInt (uint b), s'))
      | _ \<Rightarrow> None)"
| "eval P D s (PostInc x) =
     (case vars s x of
        Some (VInt i) \<Rightarrow> Some (VInt i, s\<lparr>vars := (vars s)(x \<mapsto> VInt (i + 1))\<rparr>)
      | _ \<Rightarrow> None)"
| "eval P D s (Call f [p, c, n]) =
     (if f = ''memset'' then
        (case eval P D s p of
           Some (VPtr a, s1) \<Rightarrow>
             (case eval P D s1 c of
                Some (VInt v, s2) \<Rightarrow>
                  (case eval P D s2 n of
                     Some (VInt k, s3) \<Rightarrow>
                       (if k < 0 then None
                        else (case memset_bytes (heap s3) a (word_of_int v) (nat k) of
                                None \<Rightarrow> None
                              | Some h \<Rightarrow> Some (VPtr a, s3\<lparr>heap := h\<rparr>)))
                   | _ \<Rightarrow> None)
              | _ \<Rightarrow> None)
         | _ \<Rightarrow> None)
      else None)"
| "eval P D s (Call f args) = None"

text \<open>
  A function body: expression statements in order, up to the first \<^verbatim>\<open>return\<close>. A call
  binds the parameters to the arguments, runs the body and gives back the caller's
  variables.
\<close>

fun exec_stmts :: "platform \<Rightarrow> (string \<rightharpoonup> decl) \<Rightarrow> rt_state \<Rightarrow> stmt list \<Rightarrow> (cval \<times> rt_state) option" where
  "exec_stmts P D s [] = Some (VVoid, s)"
| "exec_stmts P D s (Expr e # ss) =
     (case eval P D s e of None \<Rightarrow> None | Some (v, s') \<Rightarrow> exec_stmts P D s' ss)"
| "exec_stmts P D s (Return e # ss) = eval P D s e"

fun call_function :: "platform \<Rightarrow> (string \<rightharpoonup> decl) \<Rightarrow> rt_state \<Rightarrow> decl \<Rightarrow> cval list \<Rightarrow> (cval \<times> rt_state) option" where
  "call_function P D s (Func_def st rt n ps b) args =
     (if length ps = length args then
        (case exec_stmts P D (s\<lparr>vars := map_of (zip (map snd ps) args)\<rparr>) b of
           None \<Rightarrow> None
         | Some (v, s') \<Rightarrow> Some (v, s'\<lparr>vars := vars s\<rparr>))
      else None)"
| "call_function P D s (Typedef_struct n fs) args = None"

text \<open>The bytes of an object of \<open>k\<close> bytes at address \<open>a\<close>.\<close>

definition object_bytes :: "rt_state \<Rightarrow> nat \<Rightarrow> nat \<Rightarrow> 8 word option list" where
  "object_bytes s a k = map (heap s) [a ..< a + k]"

subsection \<open>File-status values\<close>

text \<open>
  Modelled from the spec: \<^verbatim>\<open>struct stat\<close> and \<^verbatim>\<open>struct timespec\<close> are declared by the
  sysroot's \<^verbatim>\<open>sys/stat.h\<close>, which is not in the repository. Of a file-status value the
  headers name the three timespec members, and of a timespec its seconds.
\<close>

record timespec =
  tv_sec :: int
  tv_nsec :: int

record stat =
  st_atim :: timespec
  st_mtim :: timespec
  st_ctim :: timespec

definition timespec_val :: "timespec \<Rightarrow> cval" where
  "timespec_val ts = VStruct [(''tv_sec'', VInt (tv_sec ts)), (''tv_nsec'', VInt (tv_nsec ts))]"

definition stat_val :: "stat \<Rightarrow> cval" where
  "stat_val st =
     VStruct [(''st_atim'', timespec_val (st_atim st)),
              (''st_mtim'', timespec_val (st_mtim st)),
              (''st_ctim'', timespec_val (st_ctim st))]"

subsection \<open>Names a directive list can change\<close>

text \<open>
  The macro names a list of directives defines or undefines in some branch, and the names
  it declares: every other name is out of its reach.
\<close>

fun macro_targets :: "item \<Rightarrow> string set"
  and macro_targets_list :: "item list \<Rightarrow> string set" where
  "macro_targets (Ifdef n b) = macro_targets_list b"
| "macro_targets (Ifndef n b) = macro_targets_list b"
| "macro_targets (If c b) = macro_targets_list b"
| "macro_targets (Define n m) = {n}"
| "macro_targets (Undef n) = {n}"
| "macro_targets (Include h) = {}"
| "macro_targets (Declare d) = {}"
| "macro_targets Linkage_open = {}"
| "macro_targets Linkage_close = {}"
| "macro_targets_list [] = {}"
| "macro_targets_list (i # rest) = macro_targets i \<union> macro_targets_list rest"

fun decl_targets :: "item \<Rightarrow> string set"
  and decl_targets_list :: "item list \<Rightarrow> string set" where
  "decl_targets (Ifdef n b) = decl_targets_list b"
| "decl_targets (Ifndef n b) = decl_targets_list b"
| "decl_targets (If c b) = decl_targets_list b"
| "decl_targets (Define n m) = {}"
| "decl_targets (Undef n) = {}"
| "decl_targets (Include h) = {}"
| "decl_targets (Declare d) = {decl_name d}"
| "decl_targets Linkage_open = {}"
| "decl_targets Linkage_close = {}"
| "decl_targets_list [] = {}"
| "decl_targets_list (i # rest) = decl_targets i \<union> decl_targets_list rest"

text \<open>
  A list of directives provides \<open>n\<close> as \<open>m\<close> when one of its items is
  \<^verbatim>\<open>#ifndef n\<close> / \<^verbatim>\<open>#define n m\<close> / \<^verbatim>\<open>#endif\<close> and no other item can change \<open>n\<close>.
\<close>

fun provides :: "string \<Rightarrow> macro \<Rightarrow> item list \<Rightarrow> bool" where
  "provides n m [] = False"
| "provides n m (i # rest) =
     (if i = Ifndef n [Define n m] then n \<notin> macro_targets_list rest
      else n \<notin> macro_targets i \<and> provides n m rest)"

text \<open>A list of directives with no \<^verbatim>\<open>#include\<close> in any branch.\<close>

fun include_free :: "item \<Rightarrow> bool"
  and include_free_list :: "item list \<Rightarrow> bool" where
  "include_free (Ifdef n b) = include_free_list b"
| "include_free (Ifndef n b) = include_free_list b"
| "include_free (If c b) = include_free_list b"
| "include_free (Define n m) = True"
| "include_free (Undef n) = True"
| "include_free (Include h) = False"
| "include_free (Declare d) = True"
| "include_free Linkage_open = True"
| "include_free Linkage_close = True"
| "include_free_list [] = True"
| "include_free_list (i # rest) = (include_free i \<and> include_free_list rest)"

subsection \<open>Including a header twice\<close>

definition include_twice ::
  "(string \<Rightarrow> pp_state \<Rightarrow> error + pp_state) \<Rightarrow> item list \<Rightarrow> pp_state \<Rightarrow> error + pp_state" where
  "include_twice inc hdr \<sigma> =
     (case exec_items inc hdr \<sigma> of Inl e \<Rightarrow> Inl e | Inr \<sigma>1 \<Rightarrow> exec_items inc hdr \<sigma>1)"

subsection \<open>Translation units and a sysroot to run the headers on\<close>

text \<open>
  A sysroot whose headers define no macro and declare nothing; a translation unit with
  nothing defined; one that targets the runtime; one in which the server header was
  included before and another header has defined the sendfile capability since; one with
  both sendfile capabilities defined; and one that has the affinity sentinel and type
  only.
\<close>

definition bare_sysroot :: "string \<Rightarrow> pp_state \<Rightarrow> error + pp_state" where
  "bare_sysroot h \<sigma> = Inr \<sigma>"

definition one_macro :: macro where
  "one_macro = Macro None (Expr_body (Lit 1))"

definition fresh_unit :: pp_state where
  "fresh_unit = \<lparr>macros = Map.empty, decls = Map.empty\<rparr>"

definition wasi_unit :: pp_state where
  "wasi_unit = \<lparr>macros = [''__wasi__'' \<mapsto> one_macro], decls = Map.empty\<rparr>"

definition guarded_sendfile_unit :: pp_state where
  "guarded_sendfile_unit =
     \<lparr>macros = [''_WASM_COMPAT_H'' \<mapsto> guard_macro, ''NGX_HAVE_SENDFILE'' \<mapsto> one_macro],
      decls = Map.empty\<rparr>"

definition sendfile_unit :: pp_state where
  "sendfile_unit =
     \<lparr>macros = [''NGX_HAVE_SENDFILE'' \<mapsto> one_macro, ''NGX_HAVE_SENDFILE64'' \<mapsto> one_macro],
      decls = Map.empty\<rparr>"

definition sentinel_unit :: pp_state where
  "sentinel_unit =
     \<lparr>macros = [''CPU_SETSIZE'' \<mapsto> cpu_setsize_macro],
      decls = [''cpu_set_t'' \<mapsto> cpu_set_t_1024]\<rparr>"

text \<open>
  A sysroot whose \<^verbatim>\<open>sched.h\<close> provides the affinity sentinel, a type \<^verbatim>\<open>cpu_set_t\<close> of its
  own (one member \<^verbatim>\<open>unsigned long __mask[32]\<close>) and a \<^verbatim>\<open>CPU_SET\<close> of its own, and whose other
  headers provide nothing.
\<close>

definition sysroot_cpu_set_t :: decl where
  "sysroot_cpu_set_t = Typedef_struct ''cpu_set_t'' [(''__mask'', TULong, Some (Lit 32))]"

definition sysroot_cpu_set_macro :: macro where
  "sysroot_cpu_set_macro =
     Macro (Some [''cpu'', ''set'']) (Expr_body (Call ''__sched_cpu_set'' [Var ''cpu'', Var ''set'']))"

definition affinity_sysroot :: "string \<Rightarrow> pp_state \<Rightarrow> error + pp_state" where
  "affinity_sysroot h \<sigma> =
     (if h = ''sched.h'' then
        Inr (\<sigma>\<lparr>macros := (macros \<sigma>)(''CPU_SETSIZE'' \<mapsto> cpu_setsize_macro,
                                       ''CPU_SET'' \<mapsto> sysroot_cpu_set_macro),
                decls := (decls \<sigma>)(''cpu_set_t'' \<mapsto> sysroot_cpu_set_t)\<rparr>)
      else Inr \<sigma>)"

text \<open>A unit that has its own \<^verbatim>\<open>CPU_ISSET(cpu, set)\<close>, defined as \<^verbatim>\<open>1\<close>, and no sentinel.\<close>

definition own_isset_macro :: macro where
  "own_isset_macro = Macro (Some [''cpu'', ''set'']) (Expr_body (Lit 1))"

definition own_isset_unit :: pp_state where
  "own_isset_unit = \<lparr>macros = [''CPU_ISSET'' \<mapsto> own_isset_macro], decls = Map.empty\<rparr>"

text \<open>The target of the runtime: \<^verbatim>\<open>unsigned long\<close> and pointers of 4 bytes (wasm32).\<close>

definition wasm32 :: platform where
  "wasm32 = \<lparr>sizeof_ulong = 4, sizeof_ptr = 4\<rparr>"

text \<open>
  Run-time states to evaluate expansions in: one with a zeroed \<^verbatim>\<open>cpu_set_t\<close> of 128 bytes
  at address 64, the variable \<^verbatim>\<open>set\<close> pointing to it and an index \<^verbatim>\<open>i\<close>; the same with
  every byte of the object set; one with no variable and no object; and one with a
  file-status value in the variable \<^verbatim>\<open>sb\<close>.
\<close>

definition zeroed_set :: rt_state where
  "zeroed_set =
     \<lparr>vars = [''set'' \<mapsto> VPtr 64, ''i'' \<mapsto> VInt 3],
      heap = (\<lambda>a. if 64 \<le> a \<and> a < 192 then Some 0 else None)\<rparr>"

definition filled_set :: rt_state where
  "filled_set =
     \<lparr>vars = [''set'' \<mapsto> VPtr 64, ''i'' \<mapsto> VInt 3],
      heap = (\<lambda>a. if 64 \<le> a \<and> a < 192 then Some 255 else None)\<rparr>"

definition no_objects :: rt_state where
  "no_objects = \<lparr>vars = Map.empty, heap = Map.empty\<rparr>"

definition sample_stat :: stat where
  "sample_stat =
     \<lparr>st_atim = \<lparr>tv_sec = 1700000000, tv_nsec = 1\<rparr>,
      st_mtim = \<lparr>tv_sec = 1600000000, tv_nsec = 2\<rparr>,
      st_ctim = \<lparr>tv_sec = 1500000000, tv_nsec = 3\<rparr>\<rparr>"

definition stat_state :: rt_state where
  "stat_state = \<lparr>vars = [''sb'' \<mapsto> stat_val sample_stat], heap = Map.empty\<rparr>"

section \<open>Properties of directive processing\<close>

text \<open>Processing a concatenation is processing the parts one after the other.\<close>


lemma exec_items_append:
  "exec_items inc (xs @ ys) \<sigma> =
     (case exec_items inc xs \<sigma> of Inl e \<Rightarrow> Inl e | Inr \<sigma>1 \<Rightarrow> exec_items inc ys \<sigma>1)"
  by (induction xs arbitrary: \<sigma>) (simp_all split: sum.splits)

lemma exec_keeps_macro:
  "exec_item inc i \<sigma> = Inr \<sigma>' \<Longrightarrow> n \<notin> macro_targets i \<Longrightarrow> inc_keeps_macro inc n \<Longrightarrow> macros \<sigma>' n = macros \<sigma> n"
  "exec_items inc its \<sigma> = Inr \<sigma>' \<Longrightarrow> n \<notin> macro_targets_list its \<Longrightarrow> inc_keeps_macro inc n \<Longrightarrow> macros \<sigma>' n = macros \<sigma> n"
proof (induction inc i \<sigma> and inc its \<sigma> arbitrary: \<sigma>' and \<sigma>' rule: exec_item_exec_items.induct)
  case (1 inc n' body \<sigma>)
  then show ?case by (simp split: if_splits)
next
  case (2 inc n' body \<sigma>)
  then show ?case by (simp split: if_splits)
next
  case (3 inc c body \<sigma>)
  then show ?case by (simp split: if_splits)
next
  case (4 inc n' m \<sigma>)
  then show ?case by (auto split: option.splits if_splits)
next
  case (5 inc n' \<sigma>)
  then show ?case by auto
next
  case (6 inc h \<sigma>)
  then show ?case by (simp add: inc_keeps_macro_def)
next
  case (7 inc d \<sigma>)
  then show ?case by (auto split: option.splits)
next
  case (11 inc i rest \<sigma>)
  from "11.prems"(1) obtain \<sigma>1 where a: "exec_item inc i \<sigma> = Inr \<sigma>1" and b: "exec_items inc rest \<sigma>1 = Inr \<sigma>'"
    by (auto split: sum.splits)
  from "11.prems" have n1: "n \<notin> macro_targets i" and n2: "n \<notin> macro_targets_list rest" by simp_all
  have "macros \<sigma>1 n = macros \<sigma> n" using "11.IH"(1)[OF a n1 "11.prems"(3)] .
  moreover have "macros \<sigma>' n = macros \<sigma>1 n" using "11.IH"(2)[OF a b n2 "11.prems"(3)] .
  ultimately show ?case by simp
qed simp_all

lemma exec_keeps_decl:
  "exec_item inc i \<sigma> = Inr \<sigma>' \<Longrightarrow> n \<notin> decl_targets i \<Longrightarrow> inc_keeps_decl inc n \<Longrightarrow> decls \<sigma>' n = decls \<sigma> n"
  "exec_items inc its \<sigma> = Inr \<sigma>' \<Longrightarrow> n \<notin> decl_targets_list its \<Longrightarrow> inc_keeps_decl inc n \<Longrightarrow> decls \<sigma>' n = decls \<sigma> n"
proof (induction inc i \<sigma> and inc its \<sigma> arbitrary: \<sigma>' and \<sigma>' rule: exec_item_exec_items.induct)
  case (1 inc n' body \<sigma>)
  then show ?case by (simp split: if_splits)
next
  case (2 inc n' body \<sigma>)
  then show ?case by (simp split: if_splits)
next
  case (3 inc c body \<sigma>)
  then show ?case by (simp split: if_splits)
next
  case (4 inc n' m \<sigma>)
  then show ?case by (auto split: option.splits if_splits)
next
  case (5 inc n' \<sigma>)
  then show ?case by auto
next
  case (6 inc h \<sigma>)
  then show ?case by (simp add: inc_keeps_decl_def)
next
  case (7 inc d \<sigma>)
  then show ?case by (auto split: option.splits)
next
  case (11 inc i rest \<sigma>)
  from "11.prems"(1) obtain \<sigma>1 where a: "exec_item inc i \<sigma> = Inr \<sigma>1" and b: "exec_items inc rest \<sigma>1 = Inr \<sigma>'"
    by (auto split: sum.splits)
  from "11.prems" have n1: "n \<notin> decl_targets i" and n2: "n \<notin> decl_targets_list rest" by simp_all
  have "decls \<sigma>1 n = decls \<sigma> n" using "11.IH"(1)[OF a n1 "11.prems"(3)] .
  moreover have "decls \<sigma>' n = decls \<sigma>1 n" using "11.IH"(2)[OF a b n2 "11.prems"(3)] .
  ultimately show ?case by simp
qed simp_all

lemma nginx_header_skip:
  "macros \<sigma> ''_WASM_COMPAT_H'' \<noteq> None \<Longrightarrow> exec_items inc nginx_header \<sigma> = Inr \<sigma>"
  by (auto simp: nginx_header_def)

lemma nginx_header_run:
  "macros \<sigma> ''_WASM_COMPAT_H'' = None \<Longrightarrow>
   exec_items inc nginx_header \<sigma> =
     exec_items inc nginx_body (\<sigma>\<lparr>macros := (macros \<sigma>)(''_WASM_COMPAT_H'' \<mapsto> guard_macro)\<rparr>)"
  by (simp add: nginx_header_def split: sum.splits)

lemma nginx_body_steps:
  assumes "exec_items inc nginx_body \<sigma> = Inr \<sigma>'"
  obtains s1 s2 s3 s4 where
    "exec_items inc sendfile_section \<sigma> = Inr s1"
    "exec_items inc stat_section s1 = Inr s2"
    "exec_items inc include_section s2 = Inr s3"
    "exec_items inc affinity_section s3 = Inr s4"
    "exec_items inc crypt_section s4 = Inr \<sigma>'"
  using assms unfolding nginx_body_def
  by (simp add: exec_items_append split: sum.splits if_splits)

lemma targets_sendfile [simp]:
  "macro_targets_list sendfile_section = {''NGX_HAVE_SENDFILE'', ''NGX_HAVE_SENDFILE64''}"
  "decl_targets_list sendfile_section = {}"
  by (auto simp: sendfile_section_def)

lemma targets_stat [simp]:
  "macro_targets_list stat_section = {''st_atime'', ''st_mtime'', ''st_ctime''}"
  "decl_targets_list stat_section = {}"
  by (auto simp: stat_section_def)

lemma targets_include [simp]:
  "macro_targets_list include_section = {}"
  "decl_targets_list include_section = {}"
  by (auto simp: include_section_def)

lemma targets_affinity [simp]:
  "macro_targets_list affinity_section = {''CPU_SETSIZE'', ''CPU_ZERO'', ''CPU_SET'', ''CPU_ISSET''}"
  "decl_targets_list affinity_section = {''cpu_set_t''}"
  by (auto simp: affinity_section_def cpu_set_t_typedef_def)

lemma targets_crypt [simp]:
  "macro_targets_list crypt_section = {''HAVE_CRYPT''}"
  "decl_targets_list crypt_section = {''crypt''}"
  by (auto simp: crypt_section_def crypt_stub_def)


lemma decl_names [simp]:
  "decl_name crypt_stub = ''crypt''" "decl_name cpu_set_t_typedef = ''cpu_set_t''"
  by (simp_all add: crypt_stub_def cpu_set_t_typedef_def)

lemma targets_append:
  "macro_targets_list (xs @ ys) = macro_targets_list xs \<union> macro_targets_list ys"
  "decl_targets_list (xs @ ys) = decl_targets_list xs \<union> decl_targets_list ys"
  by (induction xs) auto

lemma targets_nginx_body:
  "macro_targets_list nginx_body =
     {''NGX_HAVE_SENDFILE'', ''NGX_HAVE_SENDFILE64'', ''st_atime'', ''st_mtime'', ''st_ctime'',
      ''CPU_SETSIZE'', ''CPU_ZERO'', ''CPU_SET'', ''CPU_ISSET'', ''HAVE_CRYPT''}"
  "decl_targets_list nginx_body = {''cpu_set_t'', ''crypt''}"
  by (auto simp: nginx_body_def targets_append)

lemma targets_bash_stat [simp]:
  "macro_targets_list bash_stat_section = {''st_atime'', ''st_mtime'', ''st_ctime''}"
  "decl_targets_list bash_stat_section = {}"
  by (auto simp: bash_stat_section_def)

lemma bash_header_skip:
  "macros \<sigma> ''WASM_COMPAT_H'' \<noteq> None \<Longrightarrow> exec_items inc bash_header \<sigma> = Inr \<sigma>"
  by (auto simp: bash_header_def)

lemma bash_header_run:
  "macros \<sigma> ''WASM_COMPAT_H'' = None \<Longrightarrow>
   exec_items inc bash_header \<sigma> =
     exec_items inc [Ifdef ''__wasi__'' bash_stat_section]
       (\<sigma>\<lparr>macros := (macros \<sigma>)(''WASM_COMPAT_H'' \<mapsto> guard_macro)\<rparr>)"
  by (simp add: bash_header_def split: sum.splits)

lemma accepted_run:
  "accepted inc hdr \<sigma> \<Longrightarrow> exec_items inc hdr \<sigma> = Inr (projr (exec_items inc hdr \<sigma>))"
  by (cases "exec_items inc hdr \<sigma>") (simp_all add: accepted_def)

lemma bare_sysroot_keeps [simp]:
  "inc_keeps_macro bare_sysroot n" "inc_keeps_decl bare_sysroot n"
  by (simp_all add: inc_keeps_macro_def inc_keeps_decl_def bare_sysroot_def)

lemma nginx_guard_after:
  assumes "exec_items inc nginx_header \<sigma> = Inr \<sigma>'" "inc_keeps_macro inc ''_WASM_COMPAT_H''"
  shows "macros \<sigma>' ''_WASM_COMPAT_H'' \<noteq> None"
proof (cases "macros \<sigma> ''_WASM_COMPAT_H'' = None")
  case True
  let ?\<sigma>0 = "\<sigma>\<lparr>macros := (macros \<sigma>)(''_WASM_COMPAT_H'' \<mapsto> guard_macro)\<rparr>"
  from assms(1) True have "exec_items inc nginx_body ?\<sigma>0 = Inr \<sigma>'"
    by (simp add: nginx_header_run)
  then have "macros \<sigma>' ''_WASM_COMPAT_H'' = macros ?\<sigma>0 ''_WASM_COMPAT_H''"
    by (rule exec_keeps_macro(2)) (simp_all add: targets_nginx_body assms(2))
  then show ?thesis by simp
next
  case False
  with assms(1) show ?thesis by (simp add: nginx_header_skip)
qed

lemma bash_guard_after:
  assumes "exec_items inc bash_header \<sigma> = Inr \<sigma>'" "inc_keeps_macro inc ''WASM_COMPAT_H''"
  shows "macros \<sigma>' ''WASM_COMPAT_H'' \<noteq> None"
proof (cases "macros \<sigma> ''WASM_COMPAT_H'' = None")
  case True
  let ?\<sigma>0 = "\<sigma>\<lparr>macros := (macros \<sigma>)(''WASM_COMPAT_H'' \<mapsto> guard_macro)\<rparr>"
  from assms(1) True have "exec_items inc [Ifdef ''__wasi__'' bash_stat_section] ?\<sigma>0 = Inr \<sigma>'"
    by (simp add: bash_header_run)
  then have "macros \<sigma>' ''WASM_COMPAT_H'' = macros ?\<sigma>0 ''WASM_COMPAT_H''"
    by (rule exec_keeps_macro(2)) (simp_all add: assms(2))
  then show ?thesis by simp
next
  case False
  with assms(1) show ?thesis by (simp add: bash_header_skip)
qed

text \<open>The definitions to unfold when a header is run on one of the units above.\<close>

lemmas unit_defs = fresh_unit_def wasi_unit_def guarded_sendfile_unit_def
  sendfile_unit_def sentinel_unit_def own_isset_unit_def one_macro_def guard_macro_def
lemmas header_defs = nginx_header_def nginx_body_def bash_header_def bash_stat_section_def
    sendfile_section_def stat_section_def include_section_def affinity_section_def crypt_section_def

section \<open>Repeated inclusion\<close>

text \<open>
  Claim C9. Including either header a second time in a compilation introduces no new
  definition and produces no redefinition error: whatever the state before, processing a
  header twice gives what processing it once gives, and processing it again in the state it
  left succeeds and leaves that state as it is. The include guard
  (\<^verbatim>\<open>WASM_COMPAT_H\<close>, \<^verbatim>\<open>_WASM_COMPAT_H\<close>) does it; the system headers that a header
  includes are taken not to undefine the guard.
\<close>

theorem second_inclusion_changes_nothing:
  assumes "inc_keeps_macro inc ''WASM_COMPAT_H''" and "inc_keeps_macro inc ''_WASM_COMPAT_H''"
  shows "(exec_items inc bash_header \<sigma> = Inr \<sigma>' \<longrightarrow> exec_items inc bash_header \<sigma>' = Inr \<sigma>')
       \<and> (exec_items inc nginx_header \<sigma> = Inr \<sigma>' \<longrightarrow> exec_items inc nginx_header \<sigma>' = Inr \<sigma>')
       \<and> include_twice inc bash_header \<sigma> = exec_items inc bash_header \<sigma>
       \<and> include_twice inc nginx_header \<sigma> = exec_items inc nginx_header \<sigma>"
proof -
  have b: "exec_items inc bash_header s' = Inr s'" if "exec_items inc bash_header s = Inr s'" for s s'
    using bash_guard_after[OF that assms(1)] by (simp add: bash_header_skip)
  have n: "exec_items inc nginx_header s' = Inr s'" if "exec_items inc nginx_header s = Inr s'" for s s'
    using nginx_guard_after[OF that assms(2)] by (simp add: nginx_header_skip)
  have "include_twice inc bash_header \<sigma> = exec_items inc bash_header \<sigma>"
    by (cases "exec_items inc bash_header \<sigma>") (simp_all add: include_twice_def b)
  moreover have "include_twice inc nginx_header \<sigma> = exec_items inc nginx_header \<sigma>"
    by (cases "exec_items inc nginx_header \<sigma>") (simp_all add: include_twice_def n)
  ultimately show ?thesis using b n by blast
qed

theorem second_inclusion_changes_nothing_witness:
  "inc_keeps_macro bare_sysroot ''WASM_COMPAT_H'' \<and> inc_keeps_macro bare_sysroot ''_WASM_COMPAT_H''
   \<and> accepted bare_sysroot bash_header wasi_unit
   \<and> accepted bare_sysroot nginx_header wasi_unit
   \<and> include_twice bare_sysroot bash_header wasi_unit = exec_items bare_sysroot bash_header wasi_unit
   \<and> include_twice bare_sysroot nginx_header wasi_unit = exec_items bare_sysroot nginx_header wasi_unit
   \<and> macro_after bare_sysroot bash_header (projr (exec_items bare_sysroot bash_header wasi_unit)) ''st_atime''
       = Some (stat_alias ''st_atim'')"
proof -
  have k: "inc_keeps_macro bare_sysroot ''WASM_COMPAT_H''" "inc_keeps_macro bare_sysroot ''_WASM_COMPAT_H''"
    by simp_all
  have a: "accepted bare_sysroot bash_header wasi_unit" "accepted bare_sysroot nginx_header wasi_unit"
    by (simp_all add: accepted_def header_defs unit_defs bare_sysroot_def)
  have r: "exec_items bare_sysroot bash_header wasi_unit = Inr (projr (exec_items bare_sysroot bash_header wasi_unit))"
    using a(1) by (rule accepted_run)
  have m: "macros (projr (exec_items bare_sysroot bash_header wasi_unit)) ''st_atime'' = Some (stat_alias ''st_atim'')"
    by (simp add: header_defs unit_defs bare_sysroot_def)
  from second_inclusion_changes_nothing[OF k, of wasi_unit "projr (exec_items bare_sysroot bash_header wasi_unit)"] r
  have "exec_items bare_sysroot bash_header (projr (exec_items bare_sysroot bash_header wasi_unit))
          = Inr (projr (exec_items bare_sysroot bash_header wasi_unit))"
    by simp
  then have "macro_after bare_sysroot bash_header (projr (exec_items bare_sysroot bash_header wasi_unit)) ''st_atime''
       = Some (stat_alias ''st_atim'')"
    using m by (simp add: macro_after_def)
  with second_inclusion_changes_nothing[OF k, of wasi_unit] k a show ?thesis by simp
qed

section \<open>The server header on its first inclusion\<close>

lemma after_accepted:
  "accepted inc hdr \<sigma> \<Longrightarrow> macro_after inc hdr \<sigma> n = macros (projr (exec_items inc hdr \<sigma>)) n"
  "accepted inc hdr \<sigma> \<Longrightarrow> decl_after inc hdr \<sigma> n = decls (projr (exec_items inc hdr \<sigma>)) n"
  by (cases "exec_items inc hdr \<sigma>"; simp add: accepted_def macro_after_def decl_after_def)+

lemma nginx_first_inclusion:
  assumes "exec_items inc nginx_header \<sigma> = Inr \<sigma>'" "macros \<sigma> ''_WASM_COMPAT_H'' = None"
  obtains s0 s1 s2 s3 s4 where
    "s0 = \<sigma>\<lparr>macros := (macros \<sigma>)(''_WASM_COMPAT_H'' \<mapsto> guard_macro)\<rparr>"
    "exec_items inc sendfile_section s0 = Inr s1"
    "exec_items inc stat_section s1 = Inr s2"
    "exec_items inc include_section s2 = Inr s3"
    "exec_items inc affinity_section s3 = Inr s4"
    "exec_items inc crypt_section s4 = Inr \<sigma>'"
proof -
  from assms have "exec_items inc nginx_body (\<sigma>\<lparr>macros := (macros \<sigma>)(''_WASM_COMPAT_H'' \<mapsto> guard_macro)\<rparr>) = Inr \<sigma>'"
    by (simp add: nginx_header_run)
  then show ?thesis by (rule nginx_body_steps) (rule that[OF refl])
qed

lemma sendfile_section_result:
  "exec_items inc sendfile_section \<sigma> = Inr \<sigma>' \<Longrightarrow>
   macros \<sigma>' ''NGX_HAVE_SENDFILE'' = None \<and> macros \<sigma>' ''NGX_HAVE_SENDFILE64'' = None"
  by (auto simp: sendfile_section_def split: if_splits)

section \<open>Sendfile capability\<close>

text \<open>
  Claim C3 says that after inclusion of the server header \<^verbatim>\<open>NGX_HAVE_SENDFILE\<close> and
  \<^verbatim>\<open>NGX_HAVE_SENDFILE64\<close> are undefined, whatever they were before. The two
  \<^verbatim>\<open>#undef\<close> lines are inside the include guard: in a unit where the header was included
  before and another header has defined \<^verbatim>\<open>NGX_HAVE_SENDFILE\<close> since, an inclusion is
  accepted and leaves the macro defined.
\<close>

theorem sendfile_defined_after_reinclusion:
  "macros guarded_sendfile_unit ''NGX_HAVE_SENDFILE'' = Some one_macro
   \<and> accepted bare_sysroot nginx_header guarded_sendfile_unit
   \<and> macro_after bare_sysroot nginx_header guarded_sendfile_unit ''NGX_HAVE_SENDFILE'' = Some one_macro"
  by (simp add: accepted_def macro_after_def nginx_header_def guarded_sendfile_unit_def)

text \<open>
  Claim C3, amended. After an inclusion of the server header that finds the include guard
  \<^verbatim>\<open>_WASM_COMPAT_H\<close> undefined, \<^verbatim>\<open>NGX_HAVE_SENDFILE\<close> and \<^verbatim>\<open>NGX_HAVE_SENDFILE64\<close>
  are both undefined, whatever they were before; an inclusion that finds the guard defined
  changes nothing. The system headers the header includes afterwards are taken not to
  define the two macros.
\<close>

theorem sendfile_undefined_after_first_inclusion:
  assumes "exec_items inc nginx_header \<sigma> = Inr \<sigma>'"
    and "inc_keeps_macro inc ''NGX_HAVE_SENDFILE''"
    and "inc_keeps_macro inc ''NGX_HAVE_SENDFILE64''"
  shows "(macros \<sigma> ''_WASM_COMPAT_H'' = None \<longrightarrow>
            macros \<sigma>' ''NGX_HAVE_SENDFILE'' = None \<and> macros \<sigma>' ''NGX_HAVE_SENDFILE64'' = None)
       \<and> (macros \<sigma> ''_WASM_COMPAT_H'' \<noteq> None \<longrightarrow> \<sigma>' = \<sigma>)"
proof (intro conjI impI)
  assume g: "macros \<sigma> ''_WASM_COMPAT_H'' = None"
  from assms(1) g obtain s0 s1 s2 s3 s4 where
    st: "exec_items inc sendfile_section s0 = Inr s1"
        "exec_items inc stat_section s1 = Inr s2"
        "exec_items inc include_section s2 = Inr s3"
        "exec_items inc affinity_section s3 = Inr s4"
        "exec_items inc crypt_section s4 = Inr \<sigma>'"
    by (rule nginx_first_inclusion)
  have later: "macros \<sigma>' n = macros s1 n"
    if "n = ''NGX_HAVE_SENDFILE'' \<or> n = ''NGX_HAVE_SENDFILE64''" for n
  proof -
    from that assms(2,3) have k: "inc_keeps_macro inc n" by auto
    have "macros s2 n = macros s1 n" using st(2) that k by (auto intro: exec_keeps_macro(2))
    moreover have "macros s3 n = macros s2 n" using st(3) that k by (auto intro: exec_keeps_macro(2))
    moreover have "macros s4 n = macros s3 n" using st(4) that k by (auto intro: exec_keeps_macro(2))
    moreover have "macros \<sigma>' n = macros s4 n" using st(5) that k by (auto intro: exec_keeps_macro(2))
    ultimately show ?thesis by simp
  qed
  from sendfile_section_result[OF st(1)] later
  show "macros \<sigma>' ''NGX_HAVE_SENDFILE'' = None" "macros \<sigma>' ''NGX_HAVE_SENDFILE64'' = None"
    by simp_all
next
  assume "macros \<sigma> ''_WASM_COMPAT_H'' \<noteq> None"
  with assms(1) show "\<sigma>' = \<sigma>" by (simp add: nginx_header_skip)
qed

theorem sendfile_undefined_after_first_inclusion_witness:
  "macros sendfile_unit ''NGX_HAVE_SENDFILE'' = Some one_macro
   \<and> macros sendfile_unit ''NGX_HAVE_SENDFILE64'' = Some one_macro
   \<and> macros sendfile_unit ''_WASM_COMPAT_H'' = None
   \<and> accepted bare_sysroot nginx_header sendfile_unit
   \<and> macro_after bare_sysroot nginx_header sendfile_unit ''NGX_HAVE_SENDFILE'' = None
   \<and> macro_after bare_sysroot nginx_header sendfile_unit ''NGX_HAVE_SENDFILE64'' = None"
proof -
  have a: "accepted bare_sysroot nginx_header sendfile_unit"
    by (simp add: accepted_def header_defs unit_defs bare_sysroot_def)
  have g: "macros sendfile_unit ''_WASM_COMPAT_H'' = None" by (simp add: unit_defs)
  from sendfile_undefined_after_first_inclusion[OF accepted_run[OF a] bare_sysroot_keeps(1) bare_sysroot_keeps(1)] g
  have "macros (projr (exec_items bare_sysroot nginx_header sendfile_unit)) ''NGX_HAVE_SENDFILE'' = None
      \<and> macros (projr (exec_items bare_sysroot nginx_header sendfile_unit)) ''NGX_HAVE_SENDFILE64'' = None"
    by simp
  then have "macro_after bare_sysroot nginx_header sendfile_unit ''NGX_HAVE_SENDFILE'' = None
      \<and> macro_after bare_sysroot nginx_header sendfile_unit ''NGX_HAVE_SENDFILE64'' = None"
    by (simp add: after_accepted[OF a])
  with a g show ?thesis by (simp add: unit_defs)
qed

section \<open>What the sections of the headers leave\<close>

lemma provides_result:
  assumes "provides n m its" "exec_items inc its \<sigma> = Inr \<sigma>'" "inc_keeps_macro inc n"
  shows "macros \<sigma>' n = (case macros \<sigma> n of None \<Rightarrow> Some m | Some x \<Rightarrow> Some x)"
  using assms
proof (induction its arbitrary: \<sigma>)
  case Nil
  then show ?case by simp
next
  case (Cons i rest)
  from Cons.prems(2) obtain \<sigma>1 where a: "exec_item inc i \<sigma> = Inr \<sigma>1" and b: "exec_items inc rest \<sigma>1 = Inr \<sigma>'"
    by (auto split: sum.splits)
  show ?case
  proof (cases "i = Ifndef n [Define n m]")
    case True
    with Cons.prems(1) have r: "n \<notin> macro_targets_list rest" by simp
    have "macros \<sigma>' n = macros \<sigma>1 n" using b r Cons.prems(3) by (rule exec_keeps_macro(2))
    moreover have "macros \<sigma>1 n = (case macros \<sigma> n of None \<Rightarrow> Some m | Some x \<Rightarrow> Some x)"
      using a True by (auto split: if_splits option.splits)
    ultimately show ?thesis by simp
  next
    case False
    with Cons.prems(1) have i: "n \<notin> macro_targets i" and r: "provides n m rest" by simp_all
    have "macros \<sigma>1 n = macros \<sigma> n" using a i Cons.prems(3) by (rule exec_keeps_macro(1))
    moreover have "macros \<sigma>' n = (case macros \<sigma>1 n of None \<Rightarrow> Some m | Some x \<Rightarrow> Some x)"
      using r b Cons.prems(3) by (rule Cons.IH)
    ultimately show ?thesis by simp
  qed
qed

lemma nginx_body_provides:
  "provides ''st_atime'' (stat_alias ''st_atim'') nginx_body"
  "provides ''st_mtime'' (stat_alias ''st_mtim'') nginx_body"
  "provides ''st_ctime'' (stat_alias ''st_ctim'') nginx_body"
  "provides ''CPU_ZERO'' cpu_zero_macro nginx_body"
  "provides ''CPU_SET'' cpu_set_macro nginx_body"
  "provides ''CPU_ISSET'' cpu_isset_macro nginx_body"
  by (simp_all add: header_defs)

lemma bash_stat_section_provides:
  "provides ''st_atime'' (stat_alias ''st_atim'') bash_stat_section"
  "provides ''st_mtime'' (stat_alias ''st_mtim'') bash_stat_section"
  "provides ''st_ctime'' (stat_alias ''st_ctim'') bash_stat_section"
  by (simp_all add: header_defs)

lemma expand_cpu_set_t:
  "M ''CPU_SETSIZE'' = Some cpu_setsize_macro \<Longrightarrow>
   expand_decl M cpu_set_t_typedef = cpu_set_t_1024"
  by (simp add: cpu_set_t_1024_def cpu_set_t_typedef_def cpu_setsize_macro_def)

lemma sentinel_block_result:
  assumes "exec_item inc (Ifndef ''CPU_SETSIZE''
              [Define ''CPU_SETSIZE'' cpu_setsize_macro, Declare cpu_set_t_typedef]) \<sigma> = Inr \<sigma>'"
  shows "macros \<sigma> ''CPU_SETSIZE'' = None \<Longrightarrow>
           macros \<sigma>' ''CPU_SETSIZE'' = Some cpu_setsize_macro
           \<and> decls \<sigma>' ''cpu_set_t'' =
               Some cpu_set_t_1024"
    and "macros \<sigma> ''CPU_SETSIZE'' \<noteq> None \<Longrightarrow> \<sigma>' = \<sigma>"
  using assms by (auto simp: expand_cpu_set_t split: if_splits option.splits)

lemma affinity_section_sentinel:
  assumes "exec_items inc affinity_section \<sigma> = Inr \<sigma>'"
  shows "macros \<sigma> ''CPU_SETSIZE'' = None \<Longrightarrow>
           macros \<sigma>' ''CPU_SETSIZE'' = Some cpu_setsize_macro
           \<and> decls \<sigma>' ''cpu_set_t'' =
               Some cpu_set_t_1024"
    and "macros \<sigma> ''CPU_SETSIZE'' \<noteq> None \<Longrightarrow>
           macros \<sigma>' ''CPU_SETSIZE'' = macros \<sigma> ''CPU_SETSIZE''
           \<and> decls \<sigma>' ''cpu_set_t'' = decls \<sigma> ''cpu_set_t''"
proof -
  let ?rest = "[Ifndef ''CPU_ZERO'' [Define ''CPU_ZERO'' cpu_zero_macro],
                Ifndef ''CPU_SET'' [Define ''CPU_SET'' cpu_set_macro],
                Ifndef ''CPU_ISSET'' [Define ''CPU_ISSET'' cpu_isset_macro]]"
  from assms obtain s where
    a: "exec_item inc (Ifndef ''CPU_SETSIZE''
              [Define ''CPU_SETSIZE'' cpu_setsize_macro, Declare cpu_set_t_typedef]) \<sigma> = Inr s"
    and b: "exec_items inc ?rest s = Inr \<sigma>'"
    unfolding affinity_section_def exec_items.simps(2)[of inc _ ?rest] by (auto split: sum.splits)
  have d: "decls \<sigma>' = decls s" and m: "macros \<sigma>' ''CPU_SETSIZE'' = macros s ''CPU_SETSIZE''"
    using b by (auto split: if_splits)
  show "macros \<sigma> ''CPU_SETSIZE'' = None \<Longrightarrow>
           macros \<sigma>' ''CPU_SETSIZE'' = Some cpu_setsize_macro
           \<and> decls \<sigma>' ''cpu_set_t'' =
               Some cpu_set_t_1024"
    using sentinel_block_result(1)[OF a] d m by simp
  show "macros \<sigma> ''CPU_SETSIZE'' \<noteq> None \<Longrightarrow>
           macros \<sigma>' ''CPU_SETSIZE'' = macros \<sigma> ''CPU_SETSIZE''
           \<and> decls \<sigma>' ''cpu_set_t'' = decls \<sigma> ''cpu_set_t''"
    using sentinel_block_result(2)[OF a] d m by simp
qed

lemma crypt_section_result:
  assumes "exec_items inc crypt_section \<sigma> = Inr \<sigma>'"
  shows "macros \<sigma> ''HAVE_CRYPT'' = None \<Longrightarrow> macros \<sigma> ''_CRYPT_H'' = None \<Longrightarrow>
           decls \<sigma>' ''crypt'' = Some crypt_stub \<and> macros \<sigma>' ''HAVE_CRYPT'' = Some have_crypt_macro"
    and "macros \<sigma> ''HAVE_CRYPT'' \<noteq> None \<or> macros \<sigma> ''_CRYPT_H'' \<noteq> None \<Longrightarrow> \<sigma>' = \<sigma>"
  using assms
  by (auto simp: crypt_section_def crypt_stub_def split: if_splits option.splits sum.splits)

section \<open>The password-hash stub\<close>

text \<open>The body of the stub reads its two parameters, discards them and returns a null pointer.\<close>

lemma crypt_stub_returns_null:
  "call_function P D s crypt_stub [key, salt] = Some (VPtr 0, s)"
  by (simp add: crypt_stub_def)

text \<open>
  An inclusion that processes the body leaves \<^verbatim>\<open>HAVE_CRYPT\<close> or \<^verbatim>\<open>_CRYPT_H\<close> defined:
  the state with the include guard defined and both of them undefined is not one the
  header leaves.
\<close>

lemma crypt_known_after_first_inclusion:
  assumes "exec_items inc nginx_header \<sigma> = Inr \<sigma>'" "macros \<sigma> ''_WASM_COMPAT_H'' = None"
  shows "macros \<sigma>' ''HAVE_CRYPT'' \<noteq> None \<or> macros \<sigma>' ''_CRYPT_H'' \<noteq> None"
proof -
  from assms obtain s0 s1 s2 s3 s4 where st: "exec_items inc crypt_section s4 = Inr \<sigma>'"
    by (rule nginx_first_inclusion)
  show ?thesis
  proof (cases "macros s4 ''HAVE_CRYPT'' = None \<and> macros s4 ''_CRYPT_H'' = None")
    case True
    with crypt_section_result(1)[OF st] show ?thesis by simp
  next
    case False
    then have c: "macros s4 ''HAVE_CRYPT'' \<noteq> None \<or> macros s4 ''_CRYPT_H'' \<noteq> None" by auto
    from crypt_section_result(2)[OF st c] c show ?thesis by simp
  qed
qed

text \<open>
  Claim C1. When neither \<^verbatim>\<open>HAVE_CRYPT\<close> nor \<^verbatim>\<open>_CRYPT_H\<close> is defined before an inclusion
  of the server header that processes it (the include guard \<^verbatim>\<open>_WASM_COMPAT_H\<close> is not
  defined yet) and the header is accepted, file scope declares
  \<^verbatim>\<open>static inline char *crypt(const char *key, const char *salt)\<close>, a call of it with any
  two arguments (a null pointer and a pointer to an empty string among them) returns the
  null pointer and changes nothing, and \<^verbatim>\<open>HAVE_CRYPT\<close> is defined afterwards. The system
  headers the header includes are taken not to define the two macros.
\<close>

theorem crypt_stub_on_first_inclusion:
  assumes "exec_items inc nginx_header \<sigma> = Inr \<sigma>'"
    and "macros \<sigma> ''_WASM_COMPAT_H'' = None"
    and "macros \<sigma> ''HAVE_CRYPT'' = None"
    and "macros \<sigma> ''_CRYPT_H'' = None"
    and "inc_keeps_macro inc ''HAVE_CRYPT''"
    and "inc_keeps_macro inc ''_CRYPT_H''"
  shows "decls \<sigma>' ''crypt'' = Some crypt_stub
       \<and> (\<forall>P D s key salt. call_function P D s crypt_stub [key, salt] = Some (VPtr 0, s))
       \<and> macros \<sigma>' ''HAVE_CRYPT'' = Some have_crypt_macro"
proof -
  from assms(1,2) obtain s0 s1 s2 s3 s4 where
    s0: "s0 = \<sigma>\<lparr>macros := (macros \<sigma>)(''_WASM_COMPAT_H'' \<mapsto> guard_macro)\<rparr>"
    and st: "exec_items inc sendfile_section s0 = Inr s1"
        "exec_items inc stat_section s1 = Inr s2"
        "exec_items inc include_section s2 = Inr s3"
        "exec_items inc affinity_section s3 = Inr s4"
        "exec_items inc crypt_section s4 = Inr \<sigma>'"
    by (rule nginx_first_inclusion)
  have before: "macros s4 n = None" if n: "n = ''HAVE_CRYPT'' \<or> n = ''_CRYPT_H''" for n
  proof -
    from n assms(5,6) have k: "inc_keeps_macro inc n" by auto
    have "macros s0 n = None" using n assms(3,4) s0 by auto
    moreover have "macros s1 n = macros s0 n" using st(1) n k by (auto intro: exec_keeps_macro(2))
    moreover have "macros s2 n = macros s1 n" using st(2) n k by (auto intro: exec_keeps_macro(2))
    moreover have "macros s3 n = macros s2 n" using st(3) n k by (auto intro: exec_keeps_macro(2))
    moreover have "macros s4 n = macros s3 n" using st(4) n k by (auto intro: exec_keeps_macro(2))
    ultimately show ?thesis by simp
  qed
  from crypt_section_result(1)[OF st(5)] before
  have "decls \<sigma>' ''crypt'' = Some crypt_stub \<and> macros \<sigma>' ''HAVE_CRYPT'' = Some have_crypt_macro"
    by simp
  then show ?thesis by (simp add: crypt_stub_returns_null)
qed

theorem crypt_stub_on_first_inclusion_witness:
  "macros fresh_unit ''_WASM_COMPAT_H'' = None
   \<and> macros fresh_unit ''HAVE_CRYPT'' = None
   \<and> macros fresh_unit ''_CRYPT_H'' = None
   \<and> accepted bare_sysroot nginx_header fresh_unit
   \<and> decl_after bare_sysroot nginx_header fresh_unit ''crypt'' = Some crypt_stub
   \<and> call_function wasm32 Map.empty \<lparr>vars = Map.empty, heap = Map.empty\<rparr> crypt_stub [VPtr 0, VPtr 0]
       = Some (VPtr 0, \<lparr>vars = Map.empty, heap = Map.empty\<rparr>)
   \<and> call_function wasm32 Map.empty \<lparr>vars = Map.empty, heap = [16 \<mapsto> 0]\<rparr> crypt_stub [VPtr 16, VPtr 16]
       = Some (VPtr 0, \<lparr>vars = Map.empty, heap = [16 \<mapsto> 0]\<rparr>)
   \<and> macro_after bare_sysroot nginx_header fresh_unit ''HAVE_CRYPT'' = Some have_crypt_macro"
proof -
  have a: "accepted bare_sysroot nginx_header fresh_unit"
    by (simp add: accepted_def header_defs unit_defs bare_sysroot_def)
  have g: "macros fresh_unit ''_WASM_COMPAT_H'' = None" "macros fresh_unit ''HAVE_CRYPT'' = None"
    "macros fresh_unit ''_CRYPT_H'' = None"
    by (simp_all add: unit_defs)
  from crypt_stub_on_first_inclusion[OF accepted_run[OF a] g bare_sysroot_keeps(1) bare_sysroot_keeps(1)] a g
  show ?thesis by (simp add: after_accepted[OF a])
qed

section \<open>Stat-field aliases: when they are defined\<close>

lemma header_provides:
  assumes "provides n m nginx_body" "inc_keeps_macro inc n" "n \<noteq> ''_WASM_COMPAT_H''"
    and "exec_items inc nginx_header \<sigma> = Inr \<sigma>'"
  shows "macros \<sigma> ''_WASM_COMPAT_H'' = None \<Longrightarrow>
           macros \<sigma>' n = (case macros \<sigma> n of None \<Rightarrow> Some m | Some x \<Rightarrow> Some x)"
    and "macros \<sigma> ''_WASM_COMPAT_H'' \<noteq> None \<Longrightarrow> macros \<sigma>' n = macros \<sigma> n"
proof -
  assume g: "macros \<sigma> ''_WASM_COMPAT_H'' = None"
  let ?\<sigma>0 = "\<sigma>\<lparr>macros := (macros \<sigma>)(''_WASM_COMPAT_H'' \<mapsto> guard_macro)\<rparr>"
  from assms(4) g have "exec_items inc nginx_body ?\<sigma>0 = Inr \<sigma>'" by (simp add: nginx_header_run)
  from provides_result[OF assms(1) this assms(2)] assms(3)
  show "macros \<sigma>' n = (case macros \<sigma> n of None \<Rightarrow> Some m | Some x \<Rightarrow> Some x)" by simp
next
  assume "macros \<sigma> ''_WASM_COMPAT_H'' \<noteq> None"
  with assms(4) show "macros \<sigma>' n = macros \<sigma> n" by (simp add: nginx_header_skip)
qed

lemma bash_header_provides:
  assumes "provides n m bash_stat_section" "inc_keeps_macro inc n" "n \<noteq> ''WASM_COMPAT_H''"
    and "exec_items inc bash_header \<sigma> = Inr \<sigma>'"
  shows "macros \<sigma> ''WASM_COMPAT_H'' = None \<Longrightarrow> macros \<sigma> ''__wasi__'' \<noteq> None \<Longrightarrow>
           macros \<sigma>' n = (case macros \<sigma> n of None \<Rightarrow> Some m | Some x \<Rightarrow> Some x)"
    and "macros \<sigma> ''WASM_COMPAT_H'' \<noteq> None \<or> macros \<sigma> ''__wasi__'' = None \<Longrightarrow>
           macros \<sigma>' n = macros \<sigma> n"
proof -
  let ?\<sigma>0 = "\<sigma>\<lparr>macros := (macros \<sigma>)(''WASM_COMPAT_H'' \<mapsto> guard_macro)\<rparr>"
  {
    assume g: "macros \<sigma> ''WASM_COMPAT_H'' = None" and w: "macros \<sigma> ''__wasi__'' \<noteq> None"
    from assms(4) g have "exec_items inc [Ifdef ''__wasi__'' bash_stat_section] ?\<sigma>0 = Inr \<sigma>'"
      by (simp add: bash_header_run)
    with w have "exec_items inc bash_stat_section ?\<sigma>0 = Inr \<sigma>'"
      by (auto split: sum.splits)
    from provides_result[OF assms(1) this assms(2)] assms(3)
    show "macros \<sigma>' n = (case macros \<sigma> n of None \<Rightarrow> Some m | Some x \<Rightarrow> Some x)" by simp
  }
  {
    assume c: "macros \<sigma> ''WASM_COMPAT_H'' \<noteq> None \<or> macros \<sigma> ''__wasi__'' = None"
    show "macros \<sigma>' n = macros \<sigma> n"
    proof (cases "macros \<sigma> ''WASM_COMPAT_H'' = None")
      case True
      with c have w: "macros \<sigma> ''__wasi__'' = None" by simp
      from assms(4) True have "exec_items inc [Ifdef ''__wasi__'' bash_stat_section] ?\<sigma>0 = Inr \<sigma>'"
        by (simp add: bash_header_run)
      with w have "\<sigma>' = ?\<sigma>0" by simp
      with assms(3) show ?thesis by simp
    next
      case False
      with assms(4) show ?thesis by (simp add: bash_header_skip)
    qed
  }
qed

text \<open>
  Claim C2 says that in both headers the legacy names \<^verbatim>\<open>st_atime\<close>, \<^verbatim>\<open>st_mtime\<close>,
  \<^verbatim>\<open>st_ctime\<close> become aliases only under a target conditional, and that a build for which
  the conditional does not hold gets no alias. The shell header has the conditional
  (\<^verbatim>\<open>#ifdef __wasi__\<close>, line 4); the server header has none: its three definitions
  (lines 54 to 64) are guarded by \<^verbatim>\<open>#ifndef\<close> of the name only. In a unit that does
  not define \<^verbatim>\<open>__wasi__\<close> the server header defines all three aliases.
\<close>

theorem stat_alias_without_target:
  "macros fresh_unit ''__wasi__'' = None
   \<and> accepted bare_sysroot nginx_header fresh_unit
   \<and> macro_after bare_sysroot nginx_header fresh_unit ''st_atime'' = Some (stat_alias ''st_atim'')
   \<and> macro_after bare_sysroot nginx_header fresh_unit ''st_mtime'' = Some (stat_alias ''st_mtim'')
   \<and> macro_after bare_sysroot nginx_header fresh_unit ''st_ctime'' = Some (stat_alias ''st_ctim'')"
  by (simp add: accepted_def macro_after_def header_defs unit_defs bare_sysroot_def)

text \<open>
  Claim C2, amended. For each legacy name: the shell header leaves it as it was when
  \<^verbatim>\<open>__wasi__\<close> is not defined, and on its first inclusion with \<^verbatim>\<open>__wasi__\<close> defined it
  defines the name, when it is not a macro yet, as the seconds of the corresponding
  timespec member; the server header has no target conditional and on its first inclusion
  defines the name, when it is not a macro yet, in every build; neither header changes a
  legacy name that is already a macro. The system headers are taken to leave the name as
  it is.
\<close>

theorem stat_alias_conditions:
  assumes "(n, ts) \<in> {(''st_atime'', ''st_atim''), (''st_mtime'', ''st_mtim''), (''st_ctime'', ''st_ctim'')}"
    and "inc_keeps_macro inc n"
  shows "(exec_items inc bash_header \<sigma> = Inr \<sigma>' \<longrightarrow> macros \<sigma> ''__wasi__'' = None \<longrightarrow>
            macros \<sigma>' n = macros \<sigma> n)
       \<and> (exec_items inc bash_header \<sigma> = Inr \<sigma>' \<longrightarrow> macros \<sigma> ''WASM_COMPAT_H'' = None \<longrightarrow>
            macros \<sigma> ''__wasi__'' \<noteq> None \<longrightarrow> macros \<sigma> n = None \<longrightarrow>
            macros \<sigma>' n = Some (stat_alias ts))
       \<and> (exec_items inc nginx_header \<sigma> = Inr \<sigma>' \<longrightarrow> macros \<sigma> ''_WASM_COMPAT_H'' = None \<longrightarrow>
            macros \<sigma> n = None \<longrightarrow> macros \<sigma>' n = Some (stat_alias ts))
       \<and> (exec_items inc bash_header \<sigma> = Inr \<sigma>' \<or> exec_items inc nginx_header \<sigma> = Inr \<sigma>' \<longrightarrow>
            macros \<sigma> n \<noteq> None \<longrightarrow> macros \<sigma>' n = macros \<sigma> n)"
proof -
  from assms(1) have pb: "provides n (stat_alias ts) bash_stat_section"
    and pn: "provides n (stat_alias ts) nginx_body"
    and ne: "n \<noteq> ''WASM_COMPAT_H''" "n \<noteq> ''_WASM_COMPAT_H''"
    using bash_stat_section_provides nginx_body_provides(1-3) by auto
  note b = bash_header_provides[OF pb assms(2) ne(1)]
  note s = header_provides[OF pn assms(2) ne(2)]
  have 1: "macros \<sigma>' n = macros \<sigma> n"
    if "exec_items inc bash_header \<sigma> = Inr \<sigma>'" "macros \<sigma> ''__wasi__'' = None"
    using b(2)[OF that(1)] that(2) by simp
  have 2: "macros \<sigma>' n = Some (stat_alias ts)"
    if "exec_items inc bash_header \<sigma> = Inr \<sigma>'" "macros \<sigma> ''WASM_COMPAT_H'' = None"
      "macros \<sigma> ''__wasi__'' \<noteq> None" "macros \<sigma> n = None"
    using b(1)[OF that(1,2,3)] that(4) by simp
  have 3: "macros \<sigma>' n = Some (stat_alias ts)"
    if "exec_items inc nginx_header \<sigma> = Inr \<sigma>'" "macros \<sigma> ''_WASM_COMPAT_H'' = None" "macros \<sigma> n = None"
    using s(1)[OF that(1,2)] that(3) by simp
  have 4: "macros \<sigma>' n = macros \<sigma> n"
    if "exec_items inc bash_header \<sigma> = Inr \<sigma>'" "macros \<sigma> n \<noteq> None"
    using b(1)[OF that(1)] b(2)[OF that(1)] that(2) by (cases "macros \<sigma> ''WASM_COMPAT_H'' = None \<and> macros \<sigma> ''__wasi__'' \<noteq> None") auto
  have 5: "macros \<sigma>' n = macros \<sigma> n"
    if "exec_items inc nginx_header \<sigma> = Inr \<sigma>'" "macros \<sigma> n \<noteq> None"
    using s(1)[OF that(1)] s(2)[OF that(1)] that(2) by (cases "macros \<sigma> ''_WASM_COMPAT_H'' = None") auto
  from 1 2 3 4 5 show ?thesis by blast
qed

theorem stat_alias_conditions_witness:
  "inc_keeps_macro bare_sysroot ''st_atime''
   \<and> accepted bare_sysroot bash_header fresh_unit
   \<and> macro_after bare_sysroot bash_header fresh_unit ''st_atime'' = None
   \<and> accepted bare_sysroot bash_header wasi_unit
   \<and> macro_after bare_sysroot bash_header wasi_unit ''st_atime'' = Some (stat_alias ''st_atim'')
   \<and> accepted bare_sysroot nginx_header fresh_unit
   \<and> macro_after bare_sysroot nginx_header fresh_unit ''st_atime'' = Some (stat_alias ''st_atim'')"
proof -
  have a: "accepted bare_sysroot bash_header fresh_unit" "accepted bare_sysroot bash_header wasi_unit"
    "accepted bare_sysroot nginx_header fresh_unit"
    by (simp_all add: accepted_def header_defs unit_defs bare_sysroot_def)
  have m: "(''st_atime'', ''st_atim'') \<in> {(''st_atime'', ''st_atim''), (''st_mtime'', ''st_mtim''), (''st_ctime'', ''st_ctim'')}"
    by simp
  have u: "macros fresh_unit ''__wasi__'' = None" "macros fresh_unit ''st_atime'' = None"
    "macros fresh_unit ''_WASM_COMPAT_H'' = None" "macros wasi_unit ''WASM_COMPAT_H'' = None"
    "macros wasi_unit ''__wasi__'' \<noteq> None" "macros wasi_unit ''st_atime'' = None"
    by (simp_all add: unit_defs)
  note r = accepted_run[OF a(1)] accepted_run[OF a(2)] accepted_run[OF a(3)]
  from stat_alias_conditions[OF m bare_sysroot_keeps(1), of fresh_unit "projr (exec_items bare_sysroot bash_header fresh_unit)"] r(1) u
  have 1: "macros (projr (exec_items bare_sysroot bash_header fresh_unit)) ''st_atime'' = None"
    by simp
  from stat_alias_conditions[OF m bare_sysroot_keeps(1), of wasi_unit "projr (exec_items bare_sysroot bash_header wasi_unit)"] r(2) u
  have 2: "macros (projr (exec_items bare_sysroot bash_header wasi_unit)) ''st_atime'' = Some (stat_alias ''st_atim'')"
    by simp
  from stat_alias_conditions[OF m bare_sysroot_keeps(1), of fresh_unit "projr (exec_items bare_sysroot nginx_header fresh_unit)"] r(3) u
  have 3: "macros (projr (exec_items bare_sysroot nginx_header fresh_unit)) ''st_atime'' = Some (stat_alias ''st_atim'')"
    by simp
  from 1 2 3 a show ?thesis by (simp add: after_accepted)
qed

section \<open>The CPU affinity shim: when it is introduced\<close>

lemma before_affinity:
  assumes "exec_items inc nginx_header \<sigma> = Inr \<sigma>'" "macros \<sigma> ''_WASM_COMPAT_H'' = None"
  obtains s3 s4 where
    "exec_items inc affinity_section s3 = Inr s4"
    "exec_items inc crypt_section s4 = Inr \<sigma>'"
    "inc_keeps_macro inc ''CPU_SETSIZE'' \<longrightarrow> macros s3 ''CPU_SETSIZE'' = macros \<sigma> ''CPU_SETSIZE''"
    "inc_keeps_decl inc ''cpu_set_t'' \<longrightarrow> decls s3 ''cpu_set_t'' = decls \<sigma> ''cpu_set_t''"
proof -
  from assms obtain s0 s1 s2 s3 s4 where
    s0: "s0 = \<sigma>\<lparr>macros := (macros \<sigma>)(''_WASM_COMPAT_H'' \<mapsto> guard_macro)\<rparr>"
    and st: "exec_items inc sendfile_section s0 = Inr s1"
        "exec_items inc stat_section s1 = Inr s2"
        "exec_items inc include_section s2 = Inr s3"
        "exec_items inc affinity_section s3 = Inr s4"
        "exec_items inc crypt_section s4 = Inr \<sigma>'"
    by (rule nginx_first_inclusion)
  have m: "macros s3 ''CPU_SETSIZE'' = macros \<sigma> ''CPU_SETSIZE''" if k: "inc_keeps_macro inc ''CPU_SETSIZE''"
  proof -
    have "macros s0 ''CPU_SETSIZE'' = macros \<sigma> ''CPU_SETSIZE''" using s0 by simp
    moreover have "macros s1 ''CPU_SETSIZE'' = macros s0 ''CPU_SETSIZE''"
      using st(1) k by (auto intro: exec_keeps_macro(2))
    moreover have "macros s2 ''CPU_SETSIZE'' = macros s1 ''CPU_SETSIZE''"
      using st(2) k by (auto intro: exec_keeps_macro(2))
    moreover have "macros s3 ''CPU_SETSIZE'' = macros s2 ''CPU_SETSIZE''"
      using st(3) k by (auto intro: exec_keeps_macro(2))
    ultimately show ?thesis by simp
  qed
  have d: "decls s3 ''cpu_set_t'' = decls \<sigma> ''cpu_set_t''" if k: "inc_keeps_decl inc ''cpu_set_t''"
  proof -
    have "decls s0 ''cpu_set_t'' = decls \<sigma> ''cpu_set_t''" using s0 by simp
    moreover have "decls s1 ''cpu_set_t'' = decls s0 ''cpu_set_t''"
      using st(1) k by (auto intro: exec_keeps_decl(2))
    moreover have "decls s2 ''cpu_set_t'' = decls s1 ''cpu_set_t''"
      using st(2) k by (auto intro: exec_keeps_decl(2))
    moreover have "decls s3 ''cpu_set_t'' = decls s2 ''cpu_set_t''"
      using st(3) k by (auto intro: exec_keeps_decl(2))
    ultimately show ?thesis by simp
  qed
  from m d have "inc_keeps_macro inc ''CPU_SETSIZE'' \<longrightarrow> macros s3 ''CPU_SETSIZE'' = macros \<sigma> ''CPU_SETSIZE''"
    "inc_keeps_decl inc ''cpu_set_t'' \<longrightarrow> decls s3 ''cpu_set_t'' = decls \<sigma> ''cpu_set_t''"
    by simp_all
  with st(4,5) show ?thesis by (rule that)
qed

lemma sentinel_after_inclusion:
  assumes "exec_items inc nginx_header \<sigma> = Inr \<sigma>'" "macros \<sigma> ''_WASM_COMPAT_H'' = None"
    and "inc_keeps_macro inc ''CPU_SETSIZE''" "inc_keeps_decl inc ''cpu_set_t''"
  shows "macros \<sigma> ''CPU_SETSIZE'' = None \<Longrightarrow>
           macros \<sigma>' ''CPU_SETSIZE'' = Some cpu_setsize_macro \<and> decls \<sigma>' ''cpu_set_t'' = Some cpu_set_t_1024"
    and "macros \<sigma> ''CPU_SETSIZE'' \<noteq> None \<Longrightarrow>
           macros \<sigma>' ''CPU_SETSIZE'' = macros \<sigma> ''CPU_SETSIZE'' \<and> decls \<sigma>' ''cpu_set_t'' = decls \<sigma> ''cpu_set_t''"
proof -
  from assms(1,2) obtain s3 s4 where
    st: "exec_items inc affinity_section s3 = Inr s4" "exec_items inc crypt_section s4 = Inr \<sigma>'"
    and m0: "inc_keeps_macro inc ''CPU_SETSIZE'' \<longrightarrow> macros s3 ''CPU_SETSIZE'' = macros \<sigma> ''CPU_SETSIZE''"
    and d0: "inc_keeps_decl inc ''cpu_set_t'' \<longrightarrow> decls s3 ''cpu_set_t'' = decls \<sigma> ''cpu_set_t''"
    by (rule before_affinity)
  from m0 d0 assms(3,4) have m: "macros s3 ''CPU_SETSIZE'' = macros \<sigma> ''CPU_SETSIZE''"
    and d: "decls s3 ''cpu_set_t'' = decls \<sigma> ''cpu_set_t''"
    by simp_all
  have m': "macros \<sigma>' ''CPU_SETSIZE'' = macros s4 ''CPU_SETSIZE''"
    using st(2) assms(3) by (auto intro: exec_keeps_macro(2))
  have d': "decls \<sigma>' ''cpu_set_t'' = decls s4 ''cpu_set_t''"
    using st(2) assms(4) by (auto intro: exec_keeps_decl(2))
  show "macros \<sigma> ''CPU_SETSIZE'' = None \<Longrightarrow>
           macros \<sigma>' ''CPU_SETSIZE'' = Some cpu_setsize_macro \<and> decls \<sigma>' ''cpu_set_t'' = Some cpu_set_t_1024"
    using affinity_section_sentinel(1)[OF st(1)] m m' d' by simp
  show "macros \<sigma> ''CPU_SETSIZE'' \<noteq> None \<Longrightarrow>
           macros \<sigma>' ''CPU_SETSIZE'' = macros \<sigma> ''CPU_SETSIZE'' \<and> decls \<sigma>' ''cpu_set_t'' = decls \<sigma> ''cpu_set_t''"
    using affinity_section_sentinel(2)[OF st(1)] m d m' d' by simp
qed

text \<open>
  Claim C4 says that the type \<^verbatim>\<open>cpu_set_t\<close> and the macros \<^verbatim>\<open>CPU_ZERO\<close>, \<^verbatim>\<open>CPU_SET\<close>,
  \<^verbatim>\<open>CPU_ISSET\<close> are introduced together, exactly when \<^verbatim>\<open>CPU_SETSIZE\<close> is absent before
  inclusion. Only the type is under \<^verbatim>\<open>#ifndef CPU_SETSIZE\<close> (lines 76 to 81); each macro
  has an \<^verbatim>\<open>#ifndef\<close> of its own name (lines 83 to 93). In a unit that has the sentinel and
  the type but no \<^verbatim>\<open>CPU_SET\<close>, the header introduces the shim's \<^verbatim>\<open>CPU_SET\<close>; in a unit
  that has no sentinel and its own \<^verbatim>\<open>CPU_ISSET\<close>, the header keeps that macro and does not
  introduce the shim's.
\<close>

theorem affinity_macro_despite_sentinel:
  "macros sentinel_unit ''CPU_SETSIZE'' = Some cpu_setsize_macro
   \<and> macros sentinel_unit ''CPU_SET'' = None
   \<and> accepted bare_sysroot nginx_header sentinel_unit
   \<and> macro_after bare_sysroot nginx_header sentinel_unit ''CPU_SET'' = Some cpu_set_macro
   \<and> macros own_isset_unit ''CPU_SETSIZE'' = None
   \<and> accepted bare_sysroot nginx_header own_isset_unit
   \<and> macro_after bare_sysroot nginx_header own_isset_unit ''CPU_ISSET'' = Some own_isset_macro
   \<and> own_isset_macro \<noteq> cpu_isset_macro"
  by (simp add: accepted_def macro_after_def header_defs unit_defs bare_sysroot_def
      own_isset_macro_def cpu_isset_macro_def)

text \<open>
  The header tests the affinity names after its own \<^verbatim>\<open>#include <sched.h>\<close> and
  \<^verbatim>\<open>#include <string.h>\<close> (lines 73 and 74 before line 76), and includes nothing after:
  what it does from line 76 on depends on the state at that point only.
\<close>

lemma exec_include_free:
  "include_free i \<Longrightarrow> exec_item inc i \<sigma> = exec_item inc' i \<sigma>"
  "include_free_list its \<Longrightarrow> exec_items inc its \<sigma> = exec_items inc' its \<sigma>"
proof (induction inc i \<sigma> and inc its \<sigma> rule: exec_item_exec_items.induct)
  case (11 inc i rest \<sigma>)
  from "11.prems" have a: "include_free i" and b: "include_free_list rest" by simp_all
  have e: "exec_item inc i \<sigma> = exec_item inc' i \<sigma>" using "11.IH"(1)[OF a] .
  show ?case
  proof (cases "exec_item inc i \<sigma>")
    case (Inl x)
    moreover from Inl e have "exec_item inc' i \<sigma> = Inl x" by simp
    ultimately show ?thesis by simp
  next
    case (Inr \<sigma>1)
    moreover from Inr e have "exec_item inc' i \<sigma> = Inr \<sigma>1" by simp
    ultimately show ?thesis using "11.IH"(2)[OF Inr b] by simp
  qed
qed simp_all

lemma nginx_header_at_check:
  assumes "exec_items inc nginx_header \<sigma> = Inr \<sigma>'" "macros \<sigma> ''_WASM_COMPAT_H'' = None"
  obtains s where
    "exec_items inc nginx_before_affinity \<sigma> = Inr s"
    "exec_items bare_sysroot (affinity_section @ crypt_section @ [Ifdef ''__cplusplus'' [Linkage_close]]) s = Inr \<sigma>'"
proof -
  let ?tail = "affinity_section @ crypt_section @ [Ifdef ''__cplusplus'' [Linkage_close]]"
  have l: "Define ''_WASM_COMPAT_H'' guard_macro # nginx_body = nginx_before_affinity @ ?tail"
    by (simp add: nginx_body_def nginx_before_affinity_def)
  from assms have "exec_items inc (Define ''_WASM_COMPAT_H'' guard_macro # nginx_body) \<sigma> = Inr \<sigma>'"
    by (simp add: nginx_header_def split: sum.splits)
  then have "exec_items inc (nginx_before_affinity @ ?tail) \<sigma> = Inr \<sigma>'" unfolding l .
  then obtain s where p: "exec_items inc nginx_before_affinity \<sigma> = Inr s"
    and t: "exec_items inc ?tail s = Inr \<sigma>'"
    by (auto simp: exec_items_append split: sum.splits)
  have f: "include_free_list ?tail"
    by (simp add: affinity_section_def crypt_section_def)
  from t exec_include_free(2)[OF f, of inc s bare_sysroot]
  have "exec_items bare_sysroot ?tail s = Inr \<sigma>'" by simp
  with p show ?thesis by (rule that)
qed

lemma tail_provides:
  "provides ''CPU_ZERO'' cpu_zero_macro (affinity_section @ crypt_section @ [Ifdef ''__cplusplus'' [Linkage_close]])"
  "provides ''CPU_SET'' cpu_set_macro (affinity_section @ crypt_section @ [Ifdef ''__cplusplus'' [Linkage_close]])"
  "provides ''CPU_ISSET'' cpu_isset_macro (affinity_section @ crypt_section @ [Ifdef ''__cplusplus'' [Linkage_close]])"
  by (simp_all add: affinity_section_def crypt_section_def)

lemma tail_sentinel:
  assumes "exec_items bare_sysroot (affinity_section @ crypt_section @ [Ifdef ''__cplusplus'' [Linkage_close]]) s = Inr \<sigma>'"
  shows "macros s ''CPU_SETSIZE'' = None \<Longrightarrow>
           macros \<sigma>' ''CPU_SETSIZE'' = Some cpu_setsize_macro \<and> decls \<sigma>' ''cpu_set_t'' = Some cpu_set_t_1024"
    and "macros s ''CPU_SETSIZE'' \<noteq> None \<Longrightarrow>
           macros \<sigma>' ''CPU_SETSIZE'' = macros s ''CPU_SETSIZE'' \<and> decls \<sigma>' ''cpu_set_t'' = decls s ''cpu_set_t''"
proof -
  let ?rest = "crypt_section @ [Ifdef ''__cplusplus'' [Linkage_close]]"
  from assms obtain s4 where a: "exec_items bare_sysroot affinity_section s = Inr s4"
    and r: "exec_items bare_sysroot ?rest s4 = Inr \<sigma>'"
    by (auto simp: exec_items_append split: sum.splits)
  have m: "macros \<sigma>' ''CPU_SETSIZE'' = macros s4 ''CPU_SETSIZE''"
    using r by (rule exec_keeps_macro(2)) (simp_all add: targets_append)
  have d: "decls \<sigma>' ''cpu_set_t'' = decls s4 ''cpu_set_t''"
    using r by (rule exec_keeps_decl(2)) (simp_all add: targets_append)
  show "macros s ''CPU_SETSIZE'' = None \<Longrightarrow>
           macros \<sigma>' ''CPU_SETSIZE'' = Some cpu_setsize_macro \<and> decls \<sigma>' ''cpu_set_t'' = Some cpu_set_t_1024"
    using affinity_section_sentinel(1)[OF a] m d by simp
  show "macros s ''CPU_SETSIZE'' \<noteq> None \<Longrightarrow>
           macros \<sigma>' ''CPU_SETSIZE'' = macros s ''CPU_SETSIZE'' \<and> decls \<sigma>' ''cpu_set_t'' = decls s ''cpu_set_t''"
    using affinity_section_sentinel(2)[OF a] m d by simp
qed

text \<open>
  Claim C4, amended. On the first inclusion of the server header (include guard
  undefined), with the state taken where the header tests the names, after lines 26 to 74
  and so after its own \<^verbatim>\<open>#include <sched.h>\<close>: the sentinel \<^verbatim>\<open>CPU_SETSIZE\<close> is defined as
  1024 and the type \<^verbatim>\<open>cpu_set_t\<close> declared exactly when the sentinel is absent there, and
  otherwise both are left as they are there; each of \<^verbatim>\<open>CPU_ZERO\<close>, \<^verbatim>\<open>CPU_SET\<close>,
  \<^verbatim>\<open>CPU_ISSET\<close> is introduced exactly when that macro itself is absent there, whatever the
  sentinel is, and otherwise left as it is there. Nothing is assumed of the system
  headers.
\<close>

theorem affinity_shim_conditions:
  assumes "exec_items inc nginx_header \<sigma> = Inr \<sigma>'"
    and "macros \<sigma> ''_WASM_COMPAT_H'' = None"
  shows "accepted inc nginx_before_affinity \<sigma>
       \<and> (macro_after inc nginx_before_affinity \<sigma> ''CPU_SETSIZE'' = None \<longrightarrow>
            macros \<sigma>' ''CPU_SETSIZE'' = Some cpu_setsize_macro \<and> decls \<sigma>' ''cpu_set_t'' = Some cpu_set_t_1024)
       \<and> (macro_after inc nginx_before_affinity \<sigma> ''CPU_SETSIZE'' \<noteq> None \<longrightarrow>
            macros \<sigma>' ''CPU_SETSIZE'' = macro_after inc nginx_before_affinity \<sigma> ''CPU_SETSIZE''
            \<and> decls \<sigma>' ''cpu_set_t'' = decl_after inc nginx_before_affinity \<sigma> ''cpu_set_t'')
       \<and> macros \<sigma>' ''CPU_ZERO'' =
           (case macro_after inc nginx_before_affinity \<sigma> ''CPU_ZERO'' of
              None \<Rightarrow> Some cpu_zero_macro | Some x \<Rightarrow> Some x)
       \<and> macros \<sigma>' ''CPU_SET'' =
           (case macro_after inc nginx_before_affinity \<sigma> ''CPU_SET'' of
              None \<Rightarrow> Some cpu_set_macro | Some x \<Rightarrow> Some x)
       \<and> macros \<sigma>' ''CPU_ISSET'' =
           (case macro_after inc nginx_before_affinity \<sigma> ''CPU_ISSET'' of
              None \<Rightarrow> Some cpu_isset_macro | Some x \<Rightarrow> Some x)"
proof -
  from assms obtain s where p: "exec_items inc nginx_before_affinity \<sigma> = Inr s"
    and t: "exec_items bare_sysroot (affinity_section @ crypt_section @ [Ifdef ''__cplusplus'' [Linkage_close]]) s = Inr \<sigma>'"
    by (rule nginx_header_at_check)
  from p have at: "accepted inc nginx_before_affinity \<sigma>"
    "\<And>n. macro_after inc nginx_before_affinity \<sigma> n = macros s n"
    "\<And>n. decl_after inc nginx_before_affinity \<sigma> n = decls s n"
    by (simp_all add: accepted_def macro_after_def decl_after_def)
  note z = provides_result[OF tail_provides(1) t bare_sysroot_keeps(1)]
  note c = provides_result[OF tail_provides(2) t bare_sysroot_keeps(1)]
  note i = provides_result[OF tail_provides(3) t bare_sysroot_keeps(1)]
  from tail_sentinel[OF t] z c i at show ?thesis by simp
qed

theorem affinity_shim_conditions_witness:
  "macros fresh_unit ''_WASM_COMPAT_H'' = None
   \<and> macros fresh_unit ''CPU_SETSIZE'' = None
   \<and> macros fresh_unit ''CPU_SET'' = None
   \<and> accepted affinity_sysroot nginx_header fresh_unit
   \<and> macro_after affinity_sysroot nginx_before_affinity fresh_unit ''CPU_SETSIZE'' = Some cpu_setsize_macro
   \<and> macro_after affinity_sysroot nginx_before_affinity fresh_unit ''CPU_SET'' = Some sysroot_cpu_set_macro
   \<and> macro_after affinity_sysroot nginx_before_affinity fresh_unit ''CPU_ZERO'' = None
   \<and> decl_after affinity_sysroot nginx_header fresh_unit ''cpu_set_t'' = Some sysroot_cpu_set_t
   \<and> macro_after affinity_sysroot nginx_header fresh_unit ''CPU_SET'' = Some sysroot_cpu_set_macro
   \<and> macro_after affinity_sysroot nginx_header fresh_unit ''CPU_ZERO'' = Some cpu_zero_macro
   \<and> macro_after affinity_sysroot nginx_header fresh_unit ''CPU_ISSET'' = Some cpu_isset_macro
   \<and> macros own_isset_unit ''_WASM_COMPAT_H'' = None
   \<and> accepted bare_sysroot nginx_header own_isset_unit
   \<and> macro_after bare_sysroot nginx_before_affinity own_isset_unit ''CPU_SETSIZE'' = None
   \<and> macro_after bare_sysroot nginx_header own_isset_unit ''CPU_SETSIZE'' = Some cpu_setsize_macro
   \<and> decl_after bare_sysroot nginx_header own_isset_unit ''cpu_set_t'' = Some cpu_set_t_1024
   \<and> macro_after bare_sysroot nginx_header own_isset_unit ''CPU_ISSET'' = Some own_isset_macro"
proof -
  have a: "accepted affinity_sysroot nginx_header fresh_unit" "accepted bare_sysroot nginx_header own_isset_unit"
    by (simp_all add: accepted_def header_defs unit_defs bare_sysroot_def affinity_sysroot_def)
  have u: "macros fresh_unit ''_WASM_COMPAT_H'' = None" "macros fresh_unit ''CPU_SETSIZE'' = None"
    "macros fresh_unit ''CPU_SET'' = None" "macros own_isset_unit ''_WASM_COMPAT_H'' = None"
    by (simp_all add: unit_defs)
  have c: "macro_after affinity_sysroot nginx_before_affinity fresh_unit ''CPU_SETSIZE'' = Some cpu_setsize_macro"
    "macro_after affinity_sysroot nginx_before_affinity fresh_unit ''CPU_SET'' = Some sysroot_cpu_set_macro"
    "macro_after affinity_sysroot nginx_before_affinity fresh_unit ''CPU_ZERO'' = None"
    "macro_after affinity_sysroot nginx_before_affinity fresh_unit ''CPU_ISSET'' = None"
    "decl_after affinity_sysroot nginx_before_affinity fresh_unit ''cpu_set_t'' = Some sysroot_cpu_set_t"
    by (simp_all add: macro_after_def decl_after_def nginx_before_affinity_def header_defs unit_defs
        affinity_sysroot_def)
  have d: "macro_after bare_sysroot nginx_before_affinity own_isset_unit ''CPU_SETSIZE'' = None"
    "macro_after bare_sysroot nginx_before_affinity own_isset_unit ''CPU_ISSET'' = Some own_isset_macro"
    by (simp_all add: macro_after_def nginx_before_affinity_def header_defs unit_defs bare_sysroot_def)
  from affinity_shim_conditions[OF accepted_run[OF a(1)] u(1)] c
  have 1: "decl_after affinity_sysroot nginx_header fresh_unit ''cpu_set_t'' = Some sysroot_cpu_set_t
   \<and> macro_after affinity_sysroot nginx_header fresh_unit ''CPU_SET'' = Some sysroot_cpu_set_macro
   \<and> macro_after affinity_sysroot nginx_header fresh_unit ''CPU_ZERO'' = Some cpu_zero_macro
   \<and> macro_after affinity_sysroot nginx_header fresh_unit ''CPU_ISSET'' = Some cpu_isset_macro"
    by (simp add: after_accepted[OF a(1)])
  from affinity_shim_conditions[OF accepted_run[OF a(2)] u(4)] d
  have 2: "macro_after bare_sysroot nginx_header own_isset_unit ''CPU_SETSIZE'' = Some cpu_setsize_macro
   \<and> decl_after bare_sysroot nginx_header own_isset_unit ''cpu_set_t'' = Some cpu_set_t_1024
   \<and> macro_after bare_sysroot nginx_header own_isset_unit ''CPU_ISSET'' = Some own_isset_macro"
    by (simp add: after_accepted[OF a(2)])
  from a u c d 1 2 show ?thesis by simp
qed

section \<open>Capacity of the affinity type\<close>

text \<open>
  The array has \<^verbatim>\<open>1024 / (8 * sizeof(unsigned long))\<close> elements of \<^verbatim>\<open>8 * sizeof(unsigned long)\<close>
  bits each: 1024 bits when the division is exact.
\<close>

lemma cpu_set_t_1024_bits:
  assumes "sizeof_ulong P dvd 128"
  shows "struct_bits P cpu_set_t_1024 = Some 1024"
proof -
  from assms have pos: "sizeof_ulong P \<noteq> 0" by (cases "sizeof_ulong P = 0") simp_all
  from assms have "8 * sizeof_ulong P dvd 8 * 128" by (rule mult_dvd_mono[OF dvd_refl])
  then have "1024 div (8 * sizeof_ulong P) * (8 * sizeof_ulong P) = 1024" by simp
  moreover have "8 * (1024 div (8 * sizeof_ulong P) * sizeof_ulong P)
                  = 1024 div (8 * sizeof_ulong P) * (8 * sizeof_ulong P)"
    by (simp only: mult.assoc mult.left_commute)
  ultimately have "8 * (1024 div (8 * sizeof_ulong P) * sizeof_ulong P) = 1024" by simp
  then show ?thesis using pos
    by (simp add: cpu_set_t_1024_def cpu_set_t_typedef_def cpu_setsize_macro_def)
qed

text \<open>
  Claim C7. The type \<^verbatim>\<open>cpu_set_t\<close> that the server header defines has a capacity of exactly
  1024 bits: whenever an inclusion of the header declares the type (the unit had none
  before and has one after), that type holds 1024 bits; and when the sentinel
  \<^verbatim>\<open>CPU_SETSIZE\<close> is absent before a first inclusion, the type is declared and holds 1024
  bits. The size of \<^verbatim>\<open>unsigned long\<close> is the target's: any size that divides 128 bytes
  (4 on wasm32, 8 on LP64 targets). The system headers are taken not to declare the type.
\<close>

theorem cpu_set_t_capacity:
  assumes "exec_items inc nginx_header \<sigma> = Inr \<sigma>'"
    and "inc_keeps_decl inc ''cpu_set_t''"
    and "sizeof_ulong P dvd 128"
  shows "(decls \<sigma> ''cpu_set_t'' = None \<longrightarrow> decls \<sigma>' ''cpu_set_t'' = Some td \<longrightarrow>
            struct_bits P td = Some 1024)
       \<and> (macros \<sigma> ''_WASM_COMPAT_H'' = None \<longrightarrow> macros \<sigma> ''CPU_SETSIZE'' = None \<longrightarrow>
            inc_keeps_macro inc ''CPU_SETSIZE'' \<longrightarrow>
            (\<exists>t. decls \<sigma>' ''cpu_set_t'' = Some t \<and> struct_bits P t = Some 1024))"
proof (intro conjI impI)
  assume n: "decls \<sigma> ''cpu_set_t'' = None" and s: "decls \<sigma>' ''cpu_set_t'' = Some td"
  have g: "macros \<sigma> ''_WASM_COMPAT_H'' = None"
  proof (rule ccontr)
    assume "macros \<sigma> ''_WASM_COMPAT_H'' \<noteq> None"
    with assms(1) have "\<sigma>' = \<sigma>" by (simp add: nginx_header_skip)
    with n s show False by simp
  qed
  from assms(1) g obtain s3 s4 where
    st: "exec_items inc affinity_section s3 = Inr s4" "exec_items inc crypt_section s4 = Inr \<sigma>'"
    and d0: "inc_keeps_decl inc ''cpu_set_t'' \<longrightarrow> decls s3 ''cpu_set_t'' = decls \<sigma> ''cpu_set_t''"
    by (rule before_affinity)
  from d0 assms(2) n have d: "decls s3 ''cpu_set_t'' = None" by simp
  have d': "decls \<sigma>' ''cpu_set_t'' = decls s4 ''cpu_set_t''"
    using st(2) assms(2) by (auto intro: exec_keeps_decl(2))
  have "td = cpu_set_t_1024"
  proof (cases "macros s3 ''CPU_SETSIZE'' = None")
    case True
    from affinity_section_sentinel(1)[OF st(1) True] d' s show ?thesis by simp
  next
    case False
    from affinity_section_sentinel(2)[OF st(1) False] d d' s show ?thesis by simp
  qed
  then show "struct_bits P td = Some 1024" by (simp add: cpu_set_t_1024_bits[OF assms(3)])
next
  assume "macros \<sigma> ''_WASM_COMPAT_H'' = None" "macros \<sigma> ''CPU_SETSIZE'' = None"
    "inc_keeps_macro inc ''CPU_SETSIZE''"
  from sentinel_after_inclusion(1)[OF assms(1) this(1) this(3) assms(2) this(2)]
  show "\<exists>t. decls \<sigma>' ''cpu_set_t'' = Some t \<and> struct_bits P t = Some 1024"
    by (simp add: cpu_set_t_1024_bits[OF assms(3)])
qed

theorem cpu_set_t_capacity_witness:
  "inc_keeps_decl bare_sysroot ''cpu_set_t''
   \<and> sizeof_ulong wasm32 dvd 128
   \<and> accepted bare_sysroot nginx_header fresh_unit
   \<and> macros fresh_unit ''CPU_SETSIZE'' = None
   \<and> decls fresh_unit ''cpu_set_t'' = None
   \<and> decl_after bare_sysroot nginx_header fresh_unit ''cpu_set_t'' = Some cpu_set_t_1024
   \<and> struct_bits wasm32 cpu_set_t_1024 = Some 1024"
proof -
  have a: "accepted bare_sysroot nginx_header fresh_unit"
    by (simp add: accepted_def header_defs unit_defs bare_sysroot_def)
  have p: "sizeof_ulong wasm32 dvd 128" by (simp add: wasm32_def)
  have u: "decls fresh_unit ''cpu_set_t'' = None" "macros fresh_unit ''CPU_SETSIZE'' = None"
    by (simp_all add: unit_defs)
  have d: "decl_after bare_sysroot nginx_header fresh_unit ''cpu_set_t'' = Some cpu_set_t_1024"
    by (simp add: decl_after_def header_defs unit_defs bare_sysroot_def cpu_set_t_1024_def
        cpu_set_t_typedef_def cpu_setsize_macro_def)
  then have d': "decls (projr (exec_items bare_sysroot nginx_header fresh_unit)) ''cpu_set_t'' = Some cpu_set_t_1024"
    by (simp add: after_accepted[OF a])
  from cpu_set_t_capacity[OF accepted_run[OF a] bare_sysroot_keeps(2) p, of cpu_set_t_1024] u d'
  have "struct_bits wasm32 cpu_set_t_1024 = Some 1024" by simp
  with a p u d show ?thesis by simp
qed

section \<open>The macros the headers introduce\<close>

lemma introduced_by_nginx_header:
  assumes "provides n m nginx_body" "inc_keeps_macro inc n" "n \<noteq> ''_WASM_COMPAT_H''"
    and "exec_items inc nginx_header \<sigma> = Inr \<sigma>'"
    and "macros \<sigma> n = None" "macros \<sigma>' n \<noteq> None"
  shows "macros \<sigma>' n = Some m"
proof (cases "macros \<sigma> ''_WASM_COMPAT_H'' = None")
  case True
  from header_provides(1)[OF assms(1,2,3,4) True] assms(5) show ?thesis by simp
next
  case False
  from header_provides(2)[OF assms(1,2,3,4) False] assms(5,6) show ?thesis by simp
qed

lemma expand_cpu_set:
  "M ''CPU_SET'' = Some cpu_set_macro \<Longrightarrow>
   expand M (Call ''CPU_SET'' [cpu, cset]) = Paren (Cast TVoid (Lit 0))"
  by (simp add: cpu_set_macro_def)

lemma expand_cpu_isset:
  "M ''CPU_ISSET'' = Some cpu_isset_macro \<Longrightarrow>
   expand M (Call ''CPU_ISSET'' [cpu, cset]) = Paren (Lit 0)"
  by (simp add: cpu_isset_macro_def)

lemma expand_stat_alias:
  "M n = Some (stat_alias ts) \<Longrightarrow>
   expand M (Member e n) = Member (Member (expand M e) ts) ''tv_sec''"
  by (simp add: stat_alias_def)

section \<open>Set-member\<close>

text \<open>
  Claim C5. The shim's \<^verbatim>\<open>CPU_SET(cpu, set)\<close>, that is the macro \<^verbatim>\<open>CPU_SET\<close> that an
  inclusion of the server header introduces, leaves every byte of every \<^verbatim>\<open>cpu_set_t\<close>
  unchanged, for every index and set expression: its expansion evaluates to void in the
  state it started from, so the bytes of the object at any address \<open>a\<close> of any size
  \<open>k\<close> are afterwards what they were, zero or not.
\<close>

theorem cpu_set_changes_no_byte:
  assumes "exec_items inc nginx_header \<sigma> = Inr \<sigma>'"
    and "macros \<sigma> ''CPU_SET'' = None" and "macros \<sigma>' ''CPU_SET'' \<noteq> None"
    and "inc_keeps_macro inc ''CPU_SET''"
  shows "eval P D s (expand (macros \<sigma>') (Call ''CPU_SET'' [cpu, cset])) = Some (VVoid, s)
       \<and> map_option (\<lambda>r. object_bytes (snd r) a k)
            (eval P D s (expand (macros \<sigma>') (Call ''CPU_SET'' [cpu, cset])))
          = Some (object_bytes s a k)"
proof -
  have "macros \<sigma>' ''CPU_SET'' = Some cpu_set_macro"
    using nginx_body_provides(5) assms(4) _ assms(1,2,3) by (rule introduced_by_nginx_header) simp
  from expand_cpu_set[of "macros \<sigma>'", OF this] show ?thesis by simp
qed

theorem cpu_set_changes_no_byte_witness:
  "accepted bare_sysroot nginx_header fresh_unit
   \<and> macros fresh_unit ''CPU_SET'' = None
   \<and> macro_after bare_sysroot nginx_header fresh_unit ''CPU_SET'' \<noteq> None
   \<and> inc_keeps_macro bare_sysroot ''CPU_SET''
   \<and> eval wasm32 Map.empty zeroed_set
        (expand (macros (projr (exec_items bare_sysroot nginx_header fresh_unit)))
           (Call ''CPU_SET'' [Var ''i'', Var ''set'']))
      = Some (VVoid, zeroed_set)
   \<and> set (object_bytes zeroed_set 64 128) = {Some 0}"
proof -
  have a: "accepted bare_sysroot nginx_header fresh_unit"
    by (simp add: accepted_def header_defs unit_defs bare_sysroot_def)
  have u: "macros fresh_unit ''CPU_SET'' = None" by (simp add: unit_defs)
  have m: "macros (projr (exec_items bare_sysroot nginx_header fresh_unit)) ''CPU_SET'' \<noteq> None"
    by (simp add: header_defs unit_defs bare_sysroot_def)
  have z: "set (object_bytes zeroed_set 64 128) = {Some 0}"
    by (auto simp: object_bytes_def zeroed_set_def image_def simp del: upt_rec_numeral)
  from cpu_set_changes_no_byte[OF accepted_run[OF a] u m bare_sysroot_keeps(1), of wasm32 Map.empty zeroed_set]
    a u m z
  show ?thesis by (simp add: after_accepted[OF a])
qed

section \<open>Test-member\<close>

text \<open>
  Claim C6. The shim's \<^verbatim>\<open>CPU_ISSET(cpu, set)\<close>, the macro an inclusion of the server header
  introduces, evaluates to 0 for every index, every set expression and every state of
  memory, zeroed or not.
\<close>

theorem cpu_isset_is_zero:
  assumes "exec_items inc nginx_header \<sigma> = Inr \<sigma>'"
    and "macros \<sigma> ''CPU_ISSET'' = None" and "macros \<sigma>' ''CPU_ISSET'' \<noteq> None"
    and "inc_keeps_macro inc ''CPU_ISSET''"
  shows "eval P D s (expand (macros \<sigma>') (Call ''CPU_ISSET'' [cpu, cset])) = Some (VInt 0, s)"
proof -
  have "macros \<sigma>' ''CPU_ISSET'' = Some cpu_isset_macro"
    using nginx_body_provides(6) assms(4) _ assms(1,2,3) by (rule introduced_by_nginx_header) simp
  from expand_cpu_isset[of "macros \<sigma>'", OF this] show ?thesis by simp
qed

theorem cpu_isset_is_zero_witness:
  "accepted bare_sysroot nginx_header fresh_unit
   \<and> macros fresh_unit ''CPU_ISSET'' = None
   \<and> macro_after bare_sysroot nginx_header fresh_unit ''CPU_ISSET'' \<noteq> None
   \<and> inc_keeps_macro bare_sysroot ''CPU_ISSET''
   \<and> heap filled_set 64 = Some 255
   \<and> eval wasm32 Map.empty filled_set
        (expand (macros (projr (exec_items bare_sysroot nginx_header fresh_unit)))
           (Call ''CPU_ISSET'' [Var ''i'', Var ''set'']))
      = Some (VInt 0, filled_set)"
proof -
  have a: "accepted bare_sysroot nginx_header fresh_unit"
    by (simp add: accepted_def header_defs unit_defs bare_sysroot_def)
  have u: "macros fresh_unit ''CPU_ISSET'' = None" by (simp add: unit_defs)
  have m: "macros (projr (exec_items bare_sysroot nginx_header fresh_unit)) ''CPU_ISSET'' \<noteq> None"
    by (simp add: header_defs unit_defs bare_sysroot_def)
  have f: "heap filled_set 64 = Some 255" by (simp add: filled_set_def)
  from cpu_isset_is_zero[OF accepted_run[OF a] u m bare_sysroot_keeps(1), of wasm32 Map.empty filled_set]
    a u m f
  show ?thesis by (simp add: after_accepted[OF a])
qed

section \<open>The affinity macros discard their arguments\<close>

text \<open>
  Claim C10. The shim's \<^verbatim>\<open>CPU_SET\<close> and \<^verbatim>\<open>CPU_ISSET\<close> discard their arguments: whatever
  the index and set expressions are, the expansions are \<^verbatim>\<open>((void)0)\<close> and \<^verbatim>\<open>(0)\<close>, in
  which no argument occurs, so no argument is evaluated and no set is dereferenced; in
  every state the expansions evaluate (no fault) and leave the state as it was (no side
  effect), with no condition on the index.
\<close>

theorem affinity_macros_discard_arguments:
  assumes "exec_items inc nginx_header \<sigma> = Inr \<sigma>'"
    and "macros \<sigma> ''CPU_SET'' = None" and "macros \<sigma>' ''CPU_SET'' \<noteq> None"
    and "macros \<sigma> ''CPU_ISSET'' = None" and "macros \<sigma>' ''CPU_ISSET'' \<noteq> None"
    and "inc_keeps_macro inc ''CPU_SET''" and "inc_keeps_macro inc ''CPU_ISSET''"
  shows "expand (macros \<sigma>') (Call ''CPU_SET'' [cpu, cset]) = Paren (Cast TVoid (Lit 0))
       \<and> expand (macros \<sigma>') (Call ''CPU_ISSET'' [cpu, cset]) = Paren (Lit 0)
       \<and> eval P D s (expand (macros \<sigma>') (Call ''CPU_SET'' [cpu, cset])) \<noteq> None
       \<and> eval P D s (expand (macros \<sigma>') (Call ''CPU_ISSET'' [cpu, cset])) \<noteq> None
       \<and> map_option snd (eval P D s (expand (macros \<sigma>') (Call ''CPU_SET'' [cpu, cset]))) = Some s
       \<and> map_option snd (eval P D s (expand (macros \<sigma>') (Call ''CPU_ISSET'' [cpu, cset]))) = Some s"
proof -
  have 1: "macros \<sigma>' ''CPU_SET'' = Some cpu_set_macro"
    using nginx_body_provides(5) assms(6) _ assms(1,2,3) by (rule introduced_by_nginx_header) simp
  have 2: "macros \<sigma>' ''CPU_ISSET'' = Some cpu_isset_macro"
    using nginx_body_provides(6) assms(7) _ assms(1,4,5) by (rule introduced_by_nginx_header) simp
  show ?thesis
    unfolding expand_cpu_set[of "macros \<sigma>'", OF 1] expand_cpu_isset[of "macros \<sigma>'", OF 2]
    by simp
qed

theorem affinity_macros_discard_arguments_witness:
  "accepted bare_sysroot nginx_header fresh_unit
   \<and> eval wasm32 Map.empty no_objects (PostInc ''i'') = None
   \<and> eval wasm32 Map.empty no_objects (Deref (Cast (TPtr TChar) (Lit 0))) = None
   \<and> eval wasm32 Map.empty no_objects
        (expand (macros (projr (exec_items bare_sysroot nginx_header fresh_unit)))
           (Call ''CPU_SET'' [PostInc ''i'', Deref (Cast (TPtr TChar) (Lit 0))]))
      = Some (VVoid, no_objects)
   \<and> eval wasm32 Map.empty no_objects
        (expand (macros (projr (exec_items bare_sysroot nginx_header fresh_unit)))
           (Call ''CPU_ISSET'' [Lit (- 1), Deref (Cast (TPtr TChar) (Lit 0))]))
      = Some (VInt 0, no_objects)
   \<and> eval wasm32 Map.empty zeroed_set (PostInc ''i'') \<noteq> Some (VInt 3, zeroed_set)
   \<and> eval wasm32 Map.empty zeroed_set
        (expand (macros (projr (exec_items bare_sysroot nginx_header fresh_unit)))
           (Call ''CPU_SET'' [PostInc ''i'', Var ''set'']))
      = Some (VVoid, zeroed_set)"
proof -
  have a: "accepted bare_sysroot nginx_header fresh_unit"
    by (simp add: accepted_def header_defs unit_defs bare_sysroot_def)
  have u: "macros fresh_unit ''CPU_SET'' = None" "macros fresh_unit ''CPU_ISSET'' = None"
    by (simp_all add: unit_defs)
  have m: "macros (projr (exec_items bare_sysroot nginx_header fresh_unit)) ''CPU_SET'' \<noteq> None"
    "macros (projr (exec_items bare_sysroot nginx_header fresh_unit)) ''CPU_ISSET'' \<noteq> None"
    by (simp_all add: header_defs unit_defs bare_sysroot_def)
  note t = affinity_macros_discard_arguments[OF accepted_run[OF a] u(1) m(1) u(2) m(2)
      bare_sysroot_keeps(1) bare_sysroot_keeps(1)]
  have f: "eval wasm32 Map.empty no_objects (PostInc ''i'') = None"
    "eval wasm32 Map.empty no_objects (Deref (Cast (TPtr TChar) (Lit 0))) = None"
    by (simp_all add: no_objects_def)
  have e: "eval wasm32 Map.empty zeroed_set (PostInc ''i'') \<noteq> Some (VInt 3, zeroed_set)"
  proof
    assume "eval wasm32 Map.empty zeroed_set (PostInc ''i'') = Some (VInt 3, zeroed_set)"
    then have "vars (zeroed_set\<lparr>vars := (vars zeroed_set)(''i'' \<mapsto> VInt 4)\<rparr>) ''i'' = vars zeroed_set ''i''"
      by (simp add: zeroed_set_def)
    then show False by (simp add: zeroed_set_def)
  qed
  from t[of "PostInc ''i''" "Deref (Cast (TPtr TChar) (Lit 0))" wasm32 Map.empty no_objects]
  have 1: "eval wasm32 Map.empty no_objects
        (expand (macros (projr (exec_items bare_sysroot nginx_header fresh_unit)))
           (Call ''CPU_SET'' [PostInc ''i'', Deref (Cast (TPtr TChar) (Lit 0))]))
      = Some (VVoid, no_objects)"
    by simp
  from t[of "Lit (- 1)" "Deref (Cast (TPtr TChar) (Lit 0))" wasm32 Map.empty no_objects]
  have 2: "eval wasm32 Map.empty no_objects
        (expand (macros (projr (exec_items bare_sysroot nginx_header fresh_unit)))
           (Call ''CPU_ISSET'' [Lit (- 1), Deref (Cast (TPtr TChar) (Lit 0))]))
      = Some (VInt 0, no_objects)"
    by simp
  from t[of "PostInc ''i''" "Var ''set''" wasm32 Map.empty zeroed_set]
  have 3: "eval wasm32 Map.empty zeroed_set
        (expand (macros (projr (exec_items bare_sysroot nginx_header fresh_unit)))
           (Call ''CPU_SET'' [PostInc ''i'', Var ''set'']))
      = Some (VVoid, zeroed_set)"
    by simp
  from a f e 1 2 3 show ?thesis by simp
qed

section \<open>Reading a legacy stat field\<close>

text \<open>Member access on a struct value.\<close>

lemma member_struct:
  "eval P D s e = Some (VStruct fs, s1) \<Longrightarrow> map_of fs f = Some v \<Longrightarrow>
   eval P D s (Member e f) = Some (v, s1)"
  by simp

lemma read_seconds:
  assumes "eval P D s e = Some (stat_val st, s1)"
  shows "eval P D s (Member (Member e ''st_atim'') ''tv_sec'') = Some (VInt (tv_sec (st_atim st)), s1)"
    and "eval P D s (Member (Member e ''st_mtim'') ''tv_sec'') = Some (VInt (tv_sec (st_mtim st)), s1)"
    and "eval P D s (Member (Member e ''st_ctim'') ''tv_sec'') = Some (VInt (tv_sec (st_ctim st)), s1)"
proof -
  note e = assms[unfolded stat_val_def]
  have a: "eval P D s (Member e ''st_atim'') = Some (timespec_val (st_atim st), s1)"
    by (rule member_struct[OF e]) simp
  have m: "eval P D s (Member e ''st_mtim'') = Some (timespec_val (st_mtim st), s1)"
    by (rule member_struct[OF e]) simp
  have c: "eval P D s (Member e ''st_ctim'') = Some (timespec_val (st_ctim st), s1)"
    by (rule member_struct[OF e]) simp
  show "eval P D s (Member (Member e ''st_atim'') ''tv_sec'') = Some (VInt (tv_sec (st_atim st)), s1)"
    by (rule member_struct[OF a[unfolded timespec_val_def]]) simp
  show "eval P D s (Member (Member e ''st_mtim'') ''tv_sec'') = Some (VInt (tv_sec (st_mtim st)), s1)"
    by (rule member_struct[OF m[unfolded timespec_val_def]]) simp
  show "eval P D s (Member (Member e ''st_ctim'') ''tv_sec'') = Some (VInt (tv_sec (st_ctim st)), s1)"
    by (rule member_struct[OF c[unfolded timespec_val_def]]) simp
qed

text \<open>
  Claim C8. In a build where a legacy name (\<^verbatim>\<open>st_atime\<close>, \<^verbatim>\<open>st_mtime\<close>, \<^verbatim>\<open>st_ctime\<close>) is
  absent (it is not a macro before the inclusion and the sysroot's headers leave it as it
  is), after the first inclusion of the shell header in a build that targets the runtime
  (\<^verbatim>\<open>__wasi__\<close> defined), or after the first inclusion of the server header, the legacy name
  is the alias, and reading it of any file-status value is reading the seconds of the
  corresponding timespec member (\<^verbatim>\<open>st_atim.tv_sec\<close>, \<^verbatim>\<open>st_mtim.tv_sec\<close>,
  \<^verbatim>\<open>st_ctim.tv_sec\<close>): the two expressions are the same after replacement and yield the
  same number.
\<close>

theorem legacy_name_reads_seconds:
  assumes "(n, ts, sel) \<in> {(''st_atime'', ''st_atim'', st_atim), (''st_mtime'', ''st_mtim'', st_mtim),
                          (''st_ctime'', ''st_ctim'', st_ctim)}"
    and "hdr = bash_header \<and> macros \<sigma> ''WASM_COMPAT_H'' = None \<and> macros \<sigma> ''__wasi__'' \<noteq> None
         \<or> hdr = nginx_header \<and> macros \<sigma> ''_WASM_COMPAT_H'' = None"
    and "macros \<sigma> n = None" and "inc_keeps_macro inc n"
    and "exec_items inc hdr \<sigma> = Inr \<sigma>'"
    and "eval P D s (expand (macros \<sigma>') e) = Some (stat_val st, s1)"
  shows "macros \<sigma>' n = Some (stat_alias ts)
       \<and> expand (macros \<sigma>') (Member e n) = Member (Member (expand (macros \<sigma>') e) ts) ''tv_sec''
       \<and> eval P D s (expand (macros \<sigma>') (Member e n)) = Some (VInt (tv_sec (sel st)), s1)
       \<and> eval P D s (Member (Member (expand (macros \<sigma>') e) ts) ''tv_sec'')
           = eval P D s (expand (macros \<sigma>') (Member e n))"
proof -
  from assms(1) have pb: "provides n (stat_alias ts) bash_stat_section"
    and pn: "provides n (stat_alias ts) nginx_body"
    and ne: "n \<noteq> ''WASM_COMPAT_H''" "n \<noteq> ''_WASM_COMPAT_H''"
    using bash_stat_section_provides nginx_body_provides(1-3) by auto
  have m: "macros \<sigma>' n = Some (stat_alias ts)"
    using assms(2)
  proof
    assume b: "hdr = bash_header \<and> macros \<sigma> ''WASM_COMPAT_H'' = None \<and> macros \<sigma> ''__wasi__'' \<noteq> None"
    with assms(5) have r: "exec_items inc bash_header \<sigma> = Inr \<sigma>'" by simp
    from b have g: "macros \<sigma> ''WASM_COMPAT_H'' = None" and w: "macros \<sigma> ''__wasi__'' \<noteq> None"
      by simp_all
    from bash_header_provides(1)[OF pb assms(4) ne(1) r g w] assms(3) show ?thesis by simp
  next
    assume b: "hdr = nginx_header \<and> macros \<sigma> ''_WASM_COMPAT_H'' = None"
    with assms(5) have r: "exec_items inc nginx_header \<sigma> = Inr \<sigma>'" by simp
    from b have g: "macros \<sigma> ''_WASM_COMPAT_H'' = None" by simp
    from header_provides(1)[OF pn assms(4) ne(2) r g] assms(3) show ?thesis by simp
  qed
  then have x: "expand (macros \<sigma>') (Member e n) = Member (Member (expand (macros \<sigma>') e) ts) ''tv_sec''"
    by (rule expand_stat_alias)
  have "eval P D s (Member (Member (expand (macros \<sigma>') e) ts) ''tv_sec'') = Some (VInt (tv_sec (sel st)), s1)"
    using assms(1) read_seconds[OF assms(6)] by auto
  with x m show ?thesis by simp
qed

theorem legacy_name_reads_seconds_witness:
  "accepted bare_sysroot bash_header wasi_unit
   \<and> macros wasi_unit ''WASM_COMPAT_H'' = None
   \<and> macros wasi_unit ''__wasi__'' \<noteq> None
   \<and> macros wasi_unit ''st_mtime'' = None
   \<and> inc_keeps_macro bare_sysroot ''st_mtime''
   \<and> eval wasm32 Map.empty stat_state (Var ''sb'') = Some (stat_val sample_stat, stat_state)
   \<and> macro_after bare_sysroot bash_header wasi_unit ''st_mtime'' = Some (stat_alias ''st_mtim'')
   \<and> eval wasm32 Map.empty stat_state
        (expand (macros (projr (exec_items bare_sysroot bash_header wasi_unit))) (Member (Var ''sb'') ''st_mtime''))
       = Some (VInt 1600000000, stat_state)
   \<and> eval wasm32 Map.empty stat_state (Member (Member (Var ''sb'') ''st_mtim'') ''tv_sec'')
       = Some (VInt 1600000000, stat_state)
   \<and> accepted bare_sysroot nginx_header wasi_unit
   \<and> macros wasi_unit ''_WASM_COMPAT_H'' = None
   \<and> macros wasi_unit ''st_atime'' = None
   \<and> inc_keeps_macro bare_sysroot ''st_atime''
   \<and> macro_after bare_sysroot nginx_header wasi_unit ''st_atime'' = Some (stat_alias ''st_atim'')
   \<and> eval wasm32 Map.empty stat_state
        (expand (macros (projr (exec_items bare_sysroot nginx_header wasi_unit))) (Member (Var ''sb'') ''st_atime''))
       = Some (VInt 1700000000, stat_state)
   \<and> eval wasm32 Map.empty stat_state (Member (Member (Var ''sb'') ''st_atim'') ''tv_sec'')
       = Some (VInt 1700000000, stat_state)"
proof -
  let ?B = "projr (exec_items bare_sysroot bash_header wasi_unit)"
  let ?N = "projr (exec_items bare_sysroot nginx_header wasi_unit)"
  have a: "accepted bare_sysroot bash_header wasi_unit" "accepted bare_sysroot nginx_header wasi_unit"
    by (simp_all add: accepted_def header_defs unit_defs bare_sysroot_def)
  have u: "macros wasi_unit ''WASM_COMPAT_H'' = None" "macros wasi_unit ''__wasi__'' \<noteq> None"
    "macros wasi_unit ''st_mtime'' = None" "macros wasi_unit ''_WASM_COMPAT_H'' = None"
    "macros wasi_unit ''st_atime'' = None"
    by (simp_all add: unit_defs)
  have x: "expand (macros ?B) (Var ''sb'') = Var ''sb''" "expand (macros ?N) (Var ''sb'') = Var ''sb''"
    by (simp_all add: header_defs unit_defs bare_sysroot_def)
  have v: "eval wasm32 Map.empty stat_state (Var ''sb'') = Some (stat_val sample_stat, stat_state)"
    by (simp add: stat_state_def)
  have p: "eval wasm32 Map.empty stat_state (expand (macros ?B) (Var ''sb'')) = Some (stat_val sample_stat, stat_state)"
    "eval wasm32 Map.empty stat_state (expand (macros ?N) (Var ''sb'')) = Some (stat_val sample_stat, stat_state)"
    unfolding x by (rule v)+
  have i: "(''st_mtime'', ''st_mtim'', st_mtim) \<in> {(''st_atime'', ''st_atim'', st_atim),
      (''st_mtime'', ''st_mtim'', st_mtim), (''st_ctime'', ''st_ctim'', st_ctim)}"
    "(''st_atime'', ''st_atim'', st_atim) \<in> {(''st_atime'', ''st_atim'', st_atim),
      (''st_mtime'', ''st_mtim'', st_mtim), (''st_ctime'', ''st_ctim'', st_ctim)}"
    by simp_all
  have hb: "bash_header = bash_header \<and> macros wasi_unit ''WASM_COMPAT_H'' = None \<and> macros wasi_unit ''__wasi__'' \<noteq> None
         \<or> bash_header = nginx_header \<and> macros wasi_unit ''_WASM_COMPAT_H'' = None"
    using u by simp
  have hn: "nginx_header = bash_header \<and> macros wasi_unit ''WASM_COMPAT_H'' = None \<and> macros wasi_unit ''__wasi__'' \<noteq> None
         \<or> nginx_header = nginx_header \<and> macros wasi_unit ''_WASM_COMPAT_H'' = None"
    using u by simp
  have c: "tv_sec (st_mtim sample_stat) = 1600000000" "tv_sec (st_atim sample_stat) = 1700000000"
    by (simp_all add: sample_stat_def)
  note tb = legacy_name_reads_seconds[OF i(1) hb u(3) bare_sysroot_keeps(1) accepted_run[OF a(1)] p(1),
      unfolded c x]
  note tn = legacy_name_reads_seconds[OF i(2) hn u(5) bare_sysroot_keeps(1) accepted_run[OF a(2)] p(2),
      unfolded c x]
  from tb have b0: "macro_after bare_sysroot bash_header wasi_unit ''st_mtime'' = Some (stat_alias ''st_mtim'')"
    unfolding after_accepted(1)[OF a(1)] by (rule conjunct1)
  from tb have b1: "eval wasm32 Map.empty stat_state (expand (macros ?B) (Member (Var ''sb'') ''st_mtime''))
       = Some (VInt 1600000000, stat_state)"
    by (rule conjunct1[OF conjunct2[OF conjunct2]])
  from tb have "eval wasm32 Map.empty stat_state (Member (Member (Var ''sb'') ''st_mtim'') ''tv_sec'')
       = eval wasm32 Map.empty stat_state (expand (macros ?B) (Member (Var ''sb'') ''st_mtime''))"
    by (rule conjunct2[OF conjunct2[OF conjunct2]])
  then have b2: "eval wasm32 Map.empty stat_state (Member (Member (Var ''sb'') ''st_mtim'') ''tv_sec'')
       = Some (VInt 1600000000, stat_state)"
    unfolding b1 .
  from tn have n0: "macro_after bare_sysroot nginx_header wasi_unit ''st_atime'' = Some (stat_alias ''st_atim'')"
    unfolding after_accepted(1)[OF a(2)] by (rule conjunct1)
  from tn have n1: "eval wasm32 Map.empty stat_state (expand (macros ?N) (Member (Var ''sb'') ''st_atime''))
       = Some (VInt 1700000000, stat_state)"
    by (rule conjunct1[OF conjunct2[OF conjunct2]])
  from tn have "eval wasm32 Map.empty stat_state (Member (Member (Var ''sb'') ''st_atim'') ''tv_sec'')
       = eval wasm32 Map.empty stat_state (expand (macros ?N) (Member (Var ''sb'') ''st_atime''))"
    by (rule conjunct2[OF conjunct2[OF conjunct2]])
  then have n2: "eval wasm32 Map.empty stat_state (Member (Member (Var ''sb'') ''st_atim'') ''tv_sec'')
       = Some (VInt 1700000000, stat_state)"
    unfolding n1 .
  show ?thesis
    by (intro conjI a u bare_sysroot_keeps(1) v b0 b1 b2 n0 n1 n2)
qed

end
